theory Spec2Isabelle
  imports Complex_Main "HOL-Library.Multiset" "HOL-Library.Char_ord" "HOL-Library.List_Lexorder"
begin

section \<open>Data\<close>

text \<open>
  The two page scripts (\<^verbatim>\<open>pages/2 About the Model.py\<close> and
  \<^verbatim>\<open>pages/4 About the Model.py\<close>) orchestrate library calls over a data frame, a
  per-session key/value store, a process-wide resource cache and two files. The embedding
  keeps that shape: every exception is a value of \<open>error\<close>, everything a run reads or
  writes outside its local variables is a field of \<open>session_state\<close> or \<open>world\<close>, and
  the trainable model, the explainer constructor and the seeded generator are opaque
  capabilities collected in \<open>caps\<close>. Cell values are of any type with a total order
  (Python compares and sorts labels); floating point enters nowhere, accuracies are exact
  rationals and the split ratio \<^verbatim>\<open>0.2\<close> is the rational \<open>1/5\<close>. What the pages
  only render (text, the table and chart widgets, the spinner, the measured training time)
  is left out; a run returns the numbers they are rendered from.
\<close>

datatype error =
    FileNotFoundError
  | EmptyDataError
  | ParserError
  | KeyError string
  | ValueError
  | IndexError
  | AttributeError string
  | FitError
  | EOFError
  | OSError

text \<open>A pandas data frame: column names, and rows carrying their index label.\<close>

record 'c frame =
  columns :: "string list"
  rows :: "(nat \<times> 'c list) list"

type_synonym 'c series = "(nat \<times> 'c) list"

text \<open>
  What \<^verbatim>\<open>model.fit\<close> receives as \<open>y\<close>: the label values of a series (line 112),
  or the integer codes that \<^verbatim>\<open>LabelEncoder\<close> returns (line 136).
\<close>

datatype 'c target = Labels "'c list" | Codes "nat list"

datatype target_kind = RawLabels | EncodedLabels

fun kind_of :: "'c target \<Rightarrow> target_kind" where
  "kind_of (Labels _) = RawLabels"
| "kind_of (Codes _) = EncodedLabels"

text \<open>
  The data set file as \<^verbatim>\<open>pd.read_csv\<close> finds it: missing, of zero bytes, not
  parsable, or a table. \<open>Table cols cells\<close> is the table as parsed, so \<open>cols\<close> are the
  column names the frame gets (the reader has already renamed a repeated header name).
\<close>

datatype 'c csv_source = NoFile | EmptyFile | Unparsable | Table "string list" "'c list list"

text \<open>The file \<^verbatim>\<open>./explainer.joblib\<close>: missing, damaged (the loader then raises the
  exception the damage leads to), or holding a dumped explainer.\<close>

datatype 'a stored = Missing | Corrupt error | Stored 'a

text \<open>Calls of the external capabilities, in the order a run makes them.\<close>

datatype event =
    ReadCsv
  | LoadPkl
  | SplitEv
  | FitEv target_kind
  | ExplainEv
  | DumpEv
  | FromFileEv

text \<open>\<^verbatim>\<open>st.session_state\<close>, restricted to the five keys the pages use.\<close>

record ('c, 'a) session_state =
  X_train :: "'c frame option"
  y_train :: "'c series option"
  X_test :: "'c frame option"
  y_test :: "'c series option"
  explainer :: "'a option"

text \<open>
  Everything shared by all sessions of the process: the two input files, the caches behind
  \<^verbatim>\<open>@st.cache_data\<close> and \<^verbatim>\<open>@st.cache_resource\<close> (the latter holds the one
  model object, so \<open>model_cache\<close> is the current fitted state of that object), the
  explainer file and whether it can be written, the operating system's entropy (what an
  unseeded generator would draw), and the trace of capability calls.
\<close>

record ('c, 'm, 'a) world =
  csv :: "'c csv_source"
  data_cache :: "('c frame \<times> string) option"
  pkl :: "'m option"
  model_cache :: "'m option"
  explainer_joblib :: "'a stored"
  writable :: bool
  entropy :: nat
  trace :: "event list"

record ('c, 'm, 'a) caps =
  fit :: "'m \<Rightarrow> 'c frame \<Rightarrow> 'c target \<Rightarrow> error + 'm"
  predict :: "'m \<Rightarrow> 'c frame \<Rightarrow> 'c list"
  explain :: "'m \<Rightarrow> 'c frame \<Rightarrow> nat list \<Rightarrow> error + 'a"
  rng_permutation :: "nat \<Rightarrow> nat \<Rightarrow> nat list"

section \<open>Library routines the pages call\<close>

text \<open>
  \<^verbatim>\<open>pd.read_csv\<close>: a missing file, a zero-byte file and an unparsable file raise,
  each its own exception; a parsed table gets the default index \<open>0, 1, \<dots>\<close>. A header
  without data rows parses to a frame with no rows.
\<close>

fun read_csv :: "'c csv_source \<Rightarrow> error + 'c frame" where
  "read_csv NoFile = Inl FileNotFoundError"
| "read_csv EmptyFile = Inl EmptyDataError"
| "read_csv Unparsable = Inl ParserError"
| "read_csv (Table cols cells) = Inr \<lparr>columns = cols, rows = zip [0..<length cells] cells\<rparr>"

text \<open>\<^verbatim>\<open>df.drop(target, axis=1)\<close> and \<^verbatim>\<open>df[target]\<close>: both raise KeyError for an
  unknown column.\<close>

definition drop_column :: "'c frame \<Rightarrow> string \<Rightarrow> error + 'c frame" where
  "drop_column df c =
     (if c \<notin> set (columns df) then Inl (KeyError c)
      else Inr \<lparr>columns = filter (\<lambda>n. n \<noteq> c) (columns df),
                rows = map (\<lambda>(i, cells). (i, map snd (filter (\<lambda>(n, v). n \<noteq> c) (zip (columns df) cells))))
                           (rows df)\<rparr>)"

fun index_of :: "'a list \<Rightarrow> 'a \<Rightarrow> nat" where
  "index_of [] a = 0"
| "index_of (x # xs) a = (if x = a then 0 else Suc (index_of xs a))"

definition get_column :: "'c frame \<Rightarrow> string \<Rightarrow> error + 'c series" where
  "get_column df c =
     (if c \<notin> set (columns df) then Inl (KeyError c)
      else Inr (map (\<lambda>(i, cells). (i, cells ! index_of (columns df) c)) (rows df)))"

text \<open>Positional row selection; a position past the end raises.\<close>

definition iloc :: "'a list \<Rightarrow> nat list \<Rightarrow> error + 'a list" where
  "iloc xs idx = (if \<forall>i \<in> set idx. i < length xs then Inr (map (\<lambda>i. xs ! i) idx) else Inl IndexError)"

text \<open>
  Modelled from the spec: \<^verbatim>\<open>train_test_split\<close> is a library routine, its body is not
  part of the repository. The spec (4.2) asks for a seeded pseudo-random row assignment with
  a fixed ratio; the seeded generator is the capability \<open>rng_permutation seed n\<close>, and the
  cut follows the library's documented algorithm for a fractional \<open>test_size\<close>:
  \<open>n_test = \<lceil>test_size * n\<rceil>\<close>, \<open>n_train = n - n_test\<close>, an empty training set raises,
  the first \<open>n_test\<close> positions of the permutation are the test rows and the next
  \<open>n_train\<close> the training rows. With \<^verbatim>\<open>random_state=None\<close> the library seeds from
  operating-system entropy, which is the extra argument \<open>os_entropy\<close>.
\<close>

definition validate_shuffle_split :: "nat \<Rightarrow> rat \<Rightarrow> error + (nat \<times> nat)" where
  "validate_shuffle_split n_samples test_size =
     (if test_size \<le> 0 \<or> 1 \<le> test_size then Inl ValueError
      else let n_test = nat \<lceil>test_size * of_nat n_samples\<rceil>;
               n_train = n_samples - n_test
           in if n_train = 0 then Inl ValueError else Inr (n_train, n_test))"

definition train_test_split ::
  "(nat \<Rightarrow> nat \<Rightarrow> nat list) \<Rightarrow> nat \<Rightarrow> 'c frame \<Rightarrow> 'c series \<Rightarrow> rat \<Rightarrow> nat option \<Rightarrow>
     error + ('c frame \<times> 'c frame \<times> 'c series \<times> 'c series)" where
  "train_test_split perm os_entropy X y test_size random_state =
     (if length (rows X) \<noteq> length y then Inl ValueError
      else case validate_shuffle_split (length (rows X)) test_size of
        Inl e \<Rightarrow> Inl e
      | Inr (n_train, n_test) \<Rightarrow>
          let seed = (case random_state of None \<Rightarrow> os_entropy | Some s \<Rightarrow> s);
              p = perm seed (length (rows X));
              test = take n_test p;
              train = take n_train (drop n_test p)
          in case (iloc (rows X) train, iloc (rows X) test, iloc y train, iloc y test) of
               (Inr a, Inr b, Inr c, Inr d) \<Rightarrow>
                 Inr (\<lparr>columns = columns X, rows = a\<rparr>, \<lparr>columns = columns X, rows = b\<rparr>, c, d)
             | _ \<Rightarrow> Inl IndexError)"

text \<open>
  \<^verbatim>\<open>accuracy_score\<close>: the fraction of positions where truth and prediction agree.
  \<^verbatim>\<open>confusion_matrix\<close> without a \<^verbatim>\<open>labels\<close> argument (as both pages call it):
  the classes are the sorted distinct values occurring in either argument, and cell
  \<open>(i, j)\<close> counts the positions whose true label is class \<open>i\<close> and whose predicted label
  is class \<open>j\<close>. Both raise on arguments of different lengths and on empty arguments.
\<close>

definition accuracy_score :: "'l list \<Rightarrow> 'l list \<Rightarrow> error + rat" where
  "accuracy_score y_true y_pred =
     (if length y_true \<noteq> length y_pred \<or> y_true = [] then Inl ValueError
      else Inr (of_nat (length (filter (\<lambda>(t, p). t = p) (zip y_true y_pred))) / of_nat (length y_true)))"

definition unique :: "'l::linorder list \<Rightarrow> 'l list" where
  "unique ys = sort (remdups ys)"

definition unique_labels :: "'l::linorder list \<Rightarrow> 'l list \<Rightarrow> 'l list" where
  "unique_labels y_true y_pred = unique (y_true @ y_pred)"

definition cell_count :: "'l list \<Rightarrow> 'l list \<Rightarrow> 'l \<Rightarrow> 'l \<Rightarrow> nat" where
  "cell_count y_true y_pred t p = length (filter (\<lambda>(a, b). a = t \<and> b = p) (zip y_true y_pred))"

definition confusion_matrix :: "'l::linorder list \<Rightarrow> 'l list \<Rightarrow> error + nat list list" where
  "confusion_matrix y_true y_pred =
     (if length y_true \<noteq> length y_pred \<or> y_true = [] then Inl ValueError
      else let labels = unique_labels y_true y_pred
           in Inr (map (\<lambda>t. map (\<lambda>p. cell_count y_true y_pred t p) labels) labels))"

text \<open>\<^verbatim>\<open>LabelEncoder().fit_transform\<close>: each label becomes its position among the
  sorted distinct labels of the same array.\<close>

definition fit_transform :: "'l::linorder list \<Rightarrow> nat list" where
  "fit_transform ys = map (index_of (unique ys)) ys"

text \<open>\<^verbatim>\<open>ClassifierExplainer.from_file\<close> on the explainer file: ValueError for a
  missing file, the damage's exception for a damaged one.\<close>

fun from_file :: "'a stored \<Rightarrow> error + 'a" where
  "from_file Missing = Inl ValueError"
| "from_file (Corrupt e) = Inl e"
| "from_file (Stored a) = Inr a"


section \<open>Running a page: state and exceptions\<close>

text \<open>
  A step of a page run takes the state and returns either the raised exception or a value,
  with the state as the step left it. \<open>and_then\<close> is sequencing: an exception skips
  the rest of the run (neither page has a \<^verbatim>\<open>try\<close>).
\<close>

type_synonym ('s, 'r) act = "'s \<Rightarrow> (error + 'r) \<times> 's"

definition ret :: "'r \<Rightarrow> ('s, 'r) act" where
  "ret x = (\<lambda>s. (Inr x, s))"

definition lift :: "error + 'r \<Rightarrow> ('s, 'r) act" where
  "lift r = (\<lambda>s. (r, s))"

definition and_then :: "('s, 'q) act \<Rightarrow> ('q \<Rightarrow> ('s, 'r) act) \<Rightarrow> ('s, 'r) act" where
  "and_then m f = (\<lambda>s. case m s of (Inl e, s') \<Rightarrow> (Inl e, s') | (Inr x, s') \<Rightarrow> f x s')"

definition emit :: "event \<Rightarrow> ('c, 'm, 'a) world \<Rightarrow> ('c, 'm, 'a) world" where
  "emit ev w = w\<lparr>trace := trace w @ [ev]\<rparr>"

type_synonym ('c, 'm, 'a) st = "('c, 'a) session_state \<times> ('c, 'm, 'a) world"

section \<open>The pages\<close>

text \<open>\<^verbatim>\<open>load_data\<close> under \<^verbatim>\<open>@st.cache_data\<close> (both pages): the first successful read
  is kept for the process; an exception is not cached.\<close>

definition load_data :: "(('c, 'm, 'a) st, 'c frame \<times> string) act" where
  "load_data = (\<lambda>(s, w).
     case data_cache w of
       Some r \<Rightarrow> (Inr r, (s, w))
     | None \<Rightarrow>
        (case read_csv (csv w) of
           Inl e \<Rightarrow> (Inl e, (s, emit ReadCsv w))
         | Inr df \<Rightarrow>
            (let target = ''RiskLevel''
             in (Inr (df, target), (s, emit ReadCsv (w\<lparr>data_cache := Some (df, target)\<rparr>))))))"

text \<open>\<^verbatim>\<open>load_model\<close> under \<^verbatim>\<open>@st.cache_resource\<close>: every run of every session gets the
  same model object once it has been unpickled.\<close>

definition load_model :: "(('c, 'm, 'a) st, 'm) act" where
  "load_model = (\<lambda>(s, w).
     case model_cache w of
       Some model \<Rightarrow> (Inr model, (s, w))
     | None \<Rightarrow>
        (case pkl w of
           None \<Rightarrow> (Inl FileNotFoundError, (s, emit LoadPkl w))
         | Some model \<Rightarrow> (Inr model, (s, emit LoadPkl (w\<lparr>model_cache := Some model\<rparr>)))))"

text \<open>\<^verbatim>\<open>model.fit(X, y)\<close> refits the shared object in place: the new fitted state
  replaces the old one in the resource cache.\<close>

definition model_fit ::
  "('c, 'm, 'a) caps \<Rightarrow> 'm \<Rightarrow> 'c frame \<Rightarrow> 'c target \<Rightarrow> (('c, 'm, 'a) st, 'm) act" where
  "model_fit K model X y = (\<lambda>(s, w).
     case fit K model X y of
       Inl e \<Rightarrow> (Inl e, (s, emit (FitEv (kind_of y)) w))
     | Inr fitted \<Rightarrow> (Inr fitted, (s, emit (FitEv (kind_of y)) (w\<lparr>model_cache := Some fitted\<rparr>))))"

text \<open>What \<^verbatim>\<open>display_results\<close> hands to the table and the heat map.\<close>

record report =
  accuracy_train :: "rat option"
  accuracy_test :: rat
  samples_train :: "nat option"
  samples_test :: "nat option"
  cm :: "nat list list"
  heatmap_z :: "nat list list"
  heatmap_x :: "string list"
  heatmap_y :: "string list"

text \<open>Page 2, lines 30 to 51.\<close>

definition display_results_p2 ::
  "('c::linorder, 'm, 'a) caps \<Rightarrow> 'm \<Rightarrow> 'c frame \<Rightarrow> 'c series \<Rightarrow> error + report" where
  "display_results_p2 K model Xte yte =
     (let y_pred = predict K model Xte
      in case accuracy_score (map snd yte) y_pred of
           Inl e \<Rightarrow> Inl e
         | Inr accuracy \<Rightarrow>
            (case confusion_matrix (map snd yte) y_pred of
               Inl e \<Rightarrow> Inl e
             | Inr c \<Rightarrow>
                Inr \<lparr>accuracy_train = None, accuracy_test = accuracy,
                     samples_train = None, samples_test = None,
                     cm = c, heatmap_z = rev c,
                     heatmap_x = [''High Risk'', ''Low Risk'', ''Medium Risk''],
                     heatmap_y = [''Medium Risk'', ''Low Risk'', ''High Risk'']\<rparr>))"

text \<open>Page 4, lines 34 to 67.\<close>

definition display_results_p4 ::
  "('c::linorder, 'm, 'a) caps \<Rightarrow> 'm \<Rightarrow> 'c frame \<Rightarrow> 'c series \<Rightarrow> 'c frame \<Rightarrow> 'c series \<Rightarrow>
     error + report" where
  "display_results_p4 K model Xtr ytr Xte yte =
     (let y_pred_test = predict K model Xte;
          y_pred_train = predict K model Xtr
      in case accuracy_score (map snd yte) y_pred_test of
           Inl e \<Rightarrow> Inl e
         | Inr acc_test \<Rightarrow>
            (case accuracy_score (map snd ytr) y_pred_train of
               Inl e \<Rightarrow> Inl e
             | Inr acc_train \<Rightarrow>
                (case confusion_matrix (map snd yte) y_pred_test of
                   Inl e \<Rightarrow> Inl e
                 | Inr c \<Rightarrow>
                    Inr \<lparr>accuracy_train = Some acc_train, accuracy_test = acc_test,
                         samples_train = Some (length ytr), samples_test = Some (length yte),
                         cm = c, heatmap_z = rev c,
                         heatmap_x = [''High Risk'', ''Low Risk'', ''Medium Risk''],
                         heatmap_y = [''Medium Risk'', ''Low Risk'', ''High Risk'']\<rparr>)))"

text \<open>
  Page 4, lines 97 to 107: the split is computed when the session has no \<^verbatim>\<open>X_train\<close>
  and then stored under four keys; otherwise the four keys are read back, a missing one
  raising.
\<close>

definition main_split ::
  "('c, 'm, 'a) caps \<Rightarrow> 'c frame \<Rightarrow> 'c series \<Rightarrow>
     (('c, 'm, 'a) st, 'c frame \<times> 'c frame \<times> 'c series \<times> 'c series) act" where
  "main_split K X y = (\<lambda>(s, w).
     case X_train s of
       None \<Rightarrow>
        (case train_test_split (rng_permutation K) (entropy w) X y (1 / 5) (Some 7) of
           Inl e \<Rightarrow> (Inl e, (s, emit SplitEv w))
         | Inr (Xtr, Xte, ytr, yte) \<Rightarrow>
            (Inr (Xtr, Xte, ytr, yte),
             (s\<lparr>X_train := Some Xtr, y_train := Some ytr, X_test := Some Xte, y_test := Some yte\<rparr>,
              emit SplitEv w)))
     | Some Xtr \<Rightarrow>
        (case y_train s of
           None \<Rightarrow> (Inl (AttributeError ''y_train''), (s, w))
         | Some ytr \<Rightarrow>
            (case X_test s of
               None \<Rightarrow> (Inl (AttributeError ''X_test''), (s, w))
             | Some Xte \<Rightarrow>
                (case y_test s of
                   None \<Rightarrow> (Inl (AttributeError ''y_test''), (s, w))
                 | Some yte \<Rightarrow> (Inr (Xtr, Xte, ytr, yte), (s, w))))))"

text \<open>Page 2, line 69: the split is computed on every run.\<close>

definition main_split_p2 ::
  "('c, 'm, 'a) caps \<Rightarrow> 'c frame \<Rightarrow> 'c series \<Rightarrow>
     (('c, 'm, 'a) st, 'c frame \<times> 'c frame \<times> 'c series \<times> 'c series) act" where
  "main_split_p2 K X y = (\<lambda>(s, w).
     (train_test_split (rng_permutation K) (entropy w) X y (1 / 5) (Some 7), (s, emit SplitEv w)))"

text \<open>
  Page 4, lines 140 to 146. \<open>explain\<close> stands for the constructor call
  \<^verbatim>\<open>ClassifierExplainer(model, X_test, y_test)\<close>, which may raise. Without the
  session key the constructor is called; when it raises, the run ends there, with no key
  stored and nothing dumped; when it returns, the explainer is stored in the session and
  then dumped, and the session keeps it when the dump raises. With the key, the explainer
  is read from the file.
\<close>

definition dump :: "'a \<Rightarrow> (('c, 'm, 'a) st, unit) act" where
  "dump e = (\<lambda>(s, w).
     if writable w then (Inr (), (s, emit DumpEv (w\<lparr>explainer_joblib := Stored e\<rparr>)))
     else (Inl OSError, (s, emit DumpEv w)))"

definition main_explainer ::
  "('c, 'm, 'a) caps \<Rightarrow> 'm \<Rightarrow> 'c frame \<Rightarrow> nat list \<Rightarrow> (('c, 'm, 'a) st, 'a) act" where
  "main_explainer K model Xte yte = (\<lambda>(s, w).
     case explainer s of
       None \<Rightarrow>
        (case explain K model Xte yte of
           Inl err \<Rightarrow> (Inl err, (s, emit ExplainEv w))
         | Inr e \<Rightarrow> and_then (dump e) (\<lambda>_. ret e) (s\<lparr>explainer := Some e\<rparr>, emit ExplainEv w))
     | Some _ \<Rightarrow> (from_file (explainer_joblib w), (s, emit FromFileEv w)))"

text \<open>What a run of a page shows: the two sample counts, the report, and on page 4 the
  explainer the importances are rendered from.\<close>

record 'a page =
  shown_train :: nat
  shown_test :: nat
  results :: report
  importances_from :: "'a option"

definition main_p2 :: "('c::linorder, 'm, 'a) caps \<Rightarrow> (('c, 'm, 'a) st, 'a page) act" where
  "main_p2 K =
     and_then load_data (\<lambda>(df, target).
     and_then (lift (drop_column df target)) (\<lambda>X.
     and_then (lift (get_column df target)) (\<lambda>y.
     and_then (main_split_p2 K X y) (\<lambda>(Xtr, Xte, ytr, yte).
     and_then load_model (\<lambda>model.
     and_then (model_fit K model Xtr (Labels (map snd ytr))) (\<lambda>model.
     and_then (lift (display_results_p2 K model Xte yte)) (\<lambda>r.
     ret \<lparr>shown_train = length (rows Xtr), shown_test = length (rows Xte),
          results = r, importances_from = None\<rparr>)))))))"

definition main_p4 :: "('c::linorder, 'm, 'a) caps \<Rightarrow> (('c, 'm, 'a) st, 'a page) act" where
  "main_p4 K =
     and_then load_data (\<lambda>(df, target).
     and_then (lift (drop_column df target)) (\<lambda>X.
     and_then (lift (get_column df target)) (\<lambda>y.
     and_then (main_split K X y) (\<lambda>(Xtr, Xte, ytr, yte).
     and_then load_model (\<lambda>model.
     and_then (model_fit K model Xtr (Labels (map snd ytr))) (\<lambda>model.
     and_then (lift (display_results_p4 K model Xtr ytr Xte yte)) (\<lambda>r.
     and_then (model_fit K model Xtr (Codes (fit_transform (map snd ytr)))) (\<lambda>model.
     and_then (main_explainer K model Xte (fit_transform (map snd yte))) (\<lambda>e.
     ret \<lparr>shown_train = length (rows Xtr), shown_test = length (rows Xte),
          results = r, importances_from = Some e\<rparr>)))))))))"

text \<open>Running steps one after the other on the same state, as a user reloading the page
  does; the list holds what each run returned (an exception ends a run, not the session).\<close>

fun run_all :: "('s, 'r) act list \<Rightarrow> 's \<Rightarrow> (error + 'r) list \<times> 's" where
  "run_all [] s = ([], s)"
| "run_all (m # ms) s = (case m s of (r, s') \<Rightarrow> (case run_all ms s' of (rs, s'') \<Rightarrow> (r # rs, s'')))"

definition count_ev :: "event \<Rightarrow> ('c, 'm, 'a) st \<Rightarrow> nat" where
  "count_ev ev st = count_list (trace (snd st)) ev"

text \<open>A first run of the explainer block, or of the split block, followed by later runs
  with other arguments; and \<open>n\<close> runs of page 4.\<close>

definition block_runs ::
  "('c, 'm, 'a) caps \<Rightarrow> 'm \<Rightarrow> 'c frame \<Rightarrow> nat list \<Rightarrow> ('m \<times> 'c frame \<times> nat list) list \<Rightarrow>
     ('c, 'm, 'a) st \<Rightarrow> (error + 'a) list \<times> ('c, 'm, 'a) st" where
  "block_runs K model Xte yte later =
     run_all (main_explainer K model Xte yte # map (\<lambda>(m, X, y). main_explainer K m X y) later)"

definition split_runs ::
  "('c, 'm, 'a) caps \<Rightarrow> 'c frame \<Rightarrow> 'c series \<Rightarrow> ('c frame \<times> 'c series) list \<Rightarrow>
     ('c, 'm, 'a) st \<Rightarrow> (error + 'c frame \<times> 'c frame \<times> 'c series \<times> 'c series) list \<times> ('c, 'm, 'a) st" where
  "split_runs K X y later =
     run_all (main_split K X y # map (\<lambda>(X', y'). main_split K X' y') later)"

definition page_runs ::
  "('c::linorder, 'm, 'a) caps \<Rightarrow> nat \<Rightarrow> ('c, 'm, 'a) st \<Rightarrow> (error + 'a page) list \<times> ('c, 'm, 'a) st" where
  "page_runs K n = run_all (replicate n (main_p4 K))"


text \<open>The trace events that are calls of \<^verbatim>\<open>model.fit\<close>.\<close>

fun is_fit :: "event \<Rightarrow> bool" where
  "is_fit (FitEv _) = True"
| "is_fit _ = False"

section \<open>Predicates used in the proofs\<close>

text \<open>A step keeps a property of the state; a step raises whenever the property holds.\<close>

definition preserves :: "('s \<Rightarrow> bool) \<Rightarrow> ('s, 'r) act \<Rightarrow> bool" where
  "preserves P m \<longleftrightarrow> (\<forall>s. P s \<longrightarrow> P (snd (m s)))"

definition aborts_under :: "('s \<Rightarrow> bool) \<Rightarrow> ('s, 'r) act \<Rightarrow> bool" where
  "aborts_under P m \<longleftrightarrow> (\<forall>s. P s \<longrightarrow> (\<exists>e. fst (m s) = Inl e))"

text \<open>The session holds the \<^verbatim>\<open>explainer\<close> key, the explainer file cannot be loaded, and
  the constructor has been called \<open>c\<close> times so far.\<close>

definition unreadable :: "nat \<Rightarrow> ('c, 'm, 'a) st \<Rightarrow> bool" where
  "unreadable c st \<longleftrightarrow>
     explainer (fst st) \<noteq> None \<and> (\<exists>err. from_file (explainer_joblib (snd st)) = Inl err)
     \<and> count_ev ExplainEv st = c"

text \<open>The session holds explainer \<open>a\<close>, and constructor and dump have been called \<open>c\<close>
  and \<open>d\<close> times so far.\<close>

definition keyed :: "'a \<Rightarrow> nat \<Rightarrow> nat \<Rightarrow> ('c, 'm, 'a) st \<Rightarrow> bool" where
  "keyed a c d st \<longleftrightarrow>
     explainer (fst st) = Some a \<and> count_ev ExplainEv st = c \<and> count_ev DumpEv st = d"

section \<open>Sample inputs\<close>

text \<open>
  A five-row table, a model whose fitted state counts its fits, a classifier that always
  answers \<^verbatim>\<open>low risk\<close>, a constructor that returns the fitted state it was given,
  and a generator that returns the positions in reverse.
\<close>

definition fresh_session :: "(string, nat) session_state" where
  "fresh_session = \<lparr>X_train = None, y_train = None, X_test = None, y_test = None, explainer = None\<rparr>"

definition sample_caps :: "(string, nat, nat) caps" where
  "sample_caps =
     \<lparr>fit = (\<lambda>m X y. Inr (Suc m)),
      predict = (\<lambda>m X. replicate (length (rows X)) ''low risk''),
      explain = (\<lambda>m X y. Inr m),
      rng_permutation = (\<lambda>seed n. rev [0..<n])\<rparr>"

definition sample_world :: "(string, nat, nat) world" where
  "sample_world =
     \<lparr>csv = Table [''Age'', ''BS'', ''RiskLevel'']
              [[''25'', ''7'', ''high risk''], [''31'', ''6'', ''mid risk''], [''19'', ''7'', ''low risk''],
               [''40'', ''8'', ''low risk''], [''22'', ''6'', ''low risk'']],
      data_cache = None, pkl = Some 0, model_cache = None,
      explainer_joblib = Missing, writable = True, entropy = 42, trace = []\<rparr>"

definition sample_X :: "string frame" where
  "sample_X = \<lparr>columns = [''Age'', ''BS''], rows = [(4, [''22'', ''6''])]\<rparr>"

text \<open>A session that already holds an explainer, and explainer files in three conditions.\<close>

text \<open>The sample capabilities with a constructor that raises.\<close>

definition raising_caps :: "(string, nat, nat) caps" where
  "raising_caps = sample_caps\<lparr>explain := (\<lambda>m X y. Inl ValueError)\<rparr>"

definition cached_session :: "(string, nat) session_state" where
  "cached_session = fresh_session\<lparr>explainer := Some 5\<rparr>"

definition stored_world :: "(string, nat, nat) world" where
  "stored_world = sample_world\<lparr>explainer_joblib := Stored 7\<rparr>"

definition corrupt_world :: "(string, nat, nat) world" where
  "corrupt_world = sample_world\<lparr>explainer_joblib := Corrupt EOFError\<rparr>"

definition readonly_world :: "(string, nat, nat) world" where
  "readonly_world = sample_world\<lparr>writable := False\<rparr>"

text \<open>
  Two sessions of one process: session A builds its explainer from fitted state 1, then
  session B builds its own from fitted state 2 (overwriting the file). And a session whose
  first dump failed.
\<close>

definition after_A :: "(string, nat, nat) st" where
  "after_A = snd (main_explainer sample_caps 1 sample_X [0] (fresh_session, sample_world))"

definition after_B :: "(string, nat, nat) st" where
  "after_B = snd (main_explainer sample_caps 2 sample_X [0] (fresh_session, snd after_A))"

definition after_failed_dump :: "(string, nat, nat) st" where
  "after_failed_dump = snd (main_explainer sample_caps 1 sample_X [0] (fresh_session, readonly_world))"

text \<open>The sample table after \<^verbatim>\<open>df.drop\<close> and \<^verbatim>\<open>df[target]\<close>, and its split under the
  reversing generator.\<close>

definition sample_features :: "string frame" where
  "sample_features =
     \<lparr>columns = [''Age'', ''BS''],
      rows = [(0, [''25'', ''7'']), (1, [''31'', ''6'']), (2, [''19'', ''7'']), (3, [''40'', ''8'']),
              (4, [''22'', ''6''])]\<rparr>"

definition sample_labels :: "string series" where
  "sample_labels = [(0, ''high risk''), (1, ''mid risk''), (2, ''low risk''), (3, ''low risk''), (4, ''low risk'')]"

definition sample_split :: "string frame \<times> string frame \<times> string series \<times> string series" where
  "sample_split =
     (\<lparr>columns = [''Age'', ''BS''],
       rows = [(3, [''40'', ''8'']), (2, [''19'', ''7'']), (1, [''31'', ''6'']), (0, [''25'', ''7''])]\<rparr>,
      \<lparr>columns = [''Age'', ''BS''], rows = [(4, [''22'', ''6''])]\<rparr>,
      [(3, ''low risk''), (2, ''low risk''), (1, ''mid risk''), (0, ''high risk'')],
      [(4, ''low risk'')])"










text \<open>
  A table of 1014 rows with three classes, in which only the first two rows are not low
  risk; a table without the target column; and a table with a header and no rows.
\<close>

definition big_cells :: "string list list" where
  "big_cells = [[''25'', ''high risk''], [''31'', ''mid risk'']] @ replicate 1012 [''22'', ''low risk'']"

definition big_world :: "(string, nat, nat) world" where
  "big_world = sample_world\<lparr>csv := Table [''Age'', ''RiskLevel''] big_cells\<rparr>"

definition no_target_world :: "(string, nat, nat) world" where
  "no_target_world = sample_world\<lparr>csv := Table [''Age'', ''BS''] [[''25'', ''7'']]\<rparr>"

definition empty_world :: "(string, nat, nat) world" where
  "empty_world = sample_world\<lparr>csv := Table [''Age'', ''RiskLevel''] []\<rparr>"

text \<open>The sample process without a model file, and the sample process after one and after
  two runs of page 4 in one session.\<close>

definition no_model_world :: "(string, nat, nat) world" where
  "no_model_world = sample_world\<lparr>pkl := None\<rparr>"

definition after_first_run :: "(string, nat, nat) st" where
  "after_first_run = snd (main_p4 sample_caps (fresh_session, sample_world))"

definition after_second_run :: "(string, nat, nat) st" where
  "after_second_run = snd (main_p4 sample_caps after_first_run)"

section \<open>Basic facts\<close>

lemma emit_fields [simp]:
  "csv (emit ev w) = csv w"
  "data_cache (emit ev w) = data_cache w"
  "pkl (emit ev w) = pkl w"
  "model_cache (emit ev w) = model_cache w"
  "explainer_joblib (emit ev w) = explainer_joblib w"
  "writable (emit ev w) = writable w"
  "entropy (emit ev w) = entropy w"
  "trace (emit ev w) = trace w @ [ev]"
  by (simp_all add: emit_def)

lemma count_ev_emit [simp]:
  "count_ev ev (s, emit ev' w) = count_ev ev (s, w) + (if ev' = ev then 1 else 0)"
  by (simp add: count_ev_def)

lemma count_list_replicate:
  "count_list (replicate n a) b = (if a = b then n else 0)"
  by (induction n) auto

lemmas page_defs = main_p4_def main_p2_def and_then_def ret_def lift_def load_data_def load_model_def
  model_fit_def main_split_def main_split_p2_def main_explainer_def dump_def display_results_p4_def
  display_results_p2_def drop_column_def get_column_def train_test_split_def
  validate_shuffle_split_def iloc_def accuracy_score_def confusion_matrix_def unique_labels_def
  unique_def cell_count_def fit_transform_def emit_def Let_def

lemmas sample_defs = fresh_session_def sample_caps_def sample_world_def sample_X_def

lemma preserves_and_then:
  assumes "preserves P m" and "\<And>x. preserves P (f x)"
  shows "preserves P (and_then m f)"
  using assms unfolding preserves_def and_then_def
  by (auto split: prod.splits sum.splits)

lemma aborts_and_then:
  assumes "preserves P m" and "\<And>x. aborts_under P (f x)"
  shows "aborts_under P (and_then m f)"
  using assms unfolding preserves_def aborts_under_def and_then_def
  by (auto split: prod.splits sum.splits)

lemma aborts_first:
  assumes "aborts_under P m"
  shows "aborts_under P (and_then m f)"
  using assms unfolding aborts_under_def and_then_def
  by (auto split: prod.splits sum.splits)

lemma preserves_lift: "preserves P (lift r)"
  by (simp add: preserves_def lift_def)

lemma preserves_ret: "preserves P (ret x)"
  by (simp add: preserves_def ret_def)

section \<open>The explainer block (page 4, lines 140 to 146)\<close>

lemma main_explainer_raises:
  assumes "explainer s = None" and "explain K model Xte yte = Inl err"
  shows "main_explainer K model Xte yte (s, w) = (Inl err, (s, emit ExplainEv w))"
  using assms by (simp add: main_explainer_def)

lemma main_explainer_builds:
  assumes "explainer s = None" and "explain K model Xte yte = Inr e"
  shows "main_explainer K model Xte yte (s, w) =
    (if writable w then Inr e else Inl OSError,
     (s\<lparr>explainer := Some e\<rparr>,
      emit DumpEv (if writable w then (emit ExplainEv w)\<lparr>explainer_joblib := Stored e\<rparr>
                   else emit ExplainEv w)))"
  using assms by (simp add: main_explainer_def and_then_def dump_def ret_def)

lemma main_explainer_present:
  assumes "explainer s = Some a"
  shows "main_explainer K model Xte yte (s, w) = (from_file (explainer_joblib w), (s, emit FromFileEv w))"
  using assms by (simp add: main_explainer_def)

text \<open>
  C1, as the code has it. The block asks the session only whether the key
  \<^verbatim>\<open>explainer\<close> exists. Without the key it never reads the file, it calls the
  constructor: when the constructor raises, the run ends with that exception, the session
  still without the key and the file untouched; when it returns, the result is put into the
  session and then dumped (the trace is exactly constructor, dump), on a writable file the
  run returns the fresh explainer and the file holds it, on an unwritable one the run ends
  in the dump's exception with the file as it was. With the key it calls neither
  constructor nor dump: it returns what loading the file gives (an exception included) and
  leaves session and file as they were.
\<close>

theorem explainer_lookup_order:
  "(explainer s = None \<longrightarrow>
      (\<forall>err. explain K model Xte yte = Inl err \<longrightarrow>
         main_explainer K model Xte yte (s, w) = (Inl err, (s, emit ExplainEv w)))
    \<and> (\<forall>e. explain K model Xte yte = Inr e \<longrightarrow>
         explainer (fst (snd (main_explainer K model Xte yte (s, w)))) = Some e
       \<and> trace (snd (snd (main_explainer K model Xte yte (s, w)))) = trace w @ [ExplainEv, DumpEv]
       \<and> (writable w \<longrightarrow>
            fst (main_explainer K model Xte yte (s, w)) = Inr e
          \<and> explainer_joblib (snd (snd (main_explainer K model Xte yte (s, w)))) = Stored e)
       \<and> (\<not> writable w \<longrightarrow>
            fst (main_explainer K model Xte yte (s, w)) = Inl OSError
          \<and> explainer_joblib (snd (snd (main_explainer K model Xte yte (s, w)))) = explainer_joblib w)))
   \<and> (explainer s \<noteq> None \<longrightarrow>
      fst (main_explainer K model Xte yte (s, w)) = from_file (explainer_joblib w)
    \<and> trace (snd (snd (main_explainer K model Xte yte (s, w)))) = trace w @ [FromFileEv]
    \<and> fst (snd (main_explainer K model Xte yte (s, w))) = s
    \<and> explainer_joblib (snd (snd (main_explainer K model Xte yte (s, w)))) = explainer_joblib w)"
proof (cases "explainer s")
  case None
  then show ?thesis
    by (auto simp: main_explainer_raises main_explainer_builds)
next
  case (Some a)
  then show ?thesis
    by (simp add: main_explainer_present)
qed

text \<open>C1, witness: the three branches at the sample inputs, the file holding explainer 7.\<close>

theorem explainer_lookup_order_witness:
  "explainer fresh_session = None \<and> writable stored_world
   \<and> explain sample_caps 2 sample_X [0] = Inr 2
   \<and> fst (main_explainer sample_caps 2 sample_X [0] (fresh_session, stored_world)) = Inr 2
   \<and> explainer_joblib (snd (snd (main_explainer sample_caps 2 sample_X [0] (fresh_session, stored_world)))) = Stored 2
   \<and> explain raising_caps 2 sample_X [0] = Inl ValueError
   \<and> main_explainer raising_caps 2 sample_X [0] (fresh_session, stored_world)
        = (Inl ValueError, (fresh_session, emit ExplainEv stored_world))
   \<and> explainer cached_session \<noteq> None
   \<and> fst (main_explainer sample_caps 2 sample_X [0] (cached_session, stored_world)) = Inr 7
   \<and> fst (snd (main_explainer sample_caps 2 sample_X [0] (cached_session, stored_world))) = cached_session"
  using explainer_lookup_order [of fresh_session sample_caps 2 sample_X "[0]" stored_world]
    explainer_lookup_order [of fresh_session raising_caps 2 sample_X "[0]" stored_world]
    explainer_lookup_order [of cached_session sample_caps 2 sample_X "[0]" stored_world]
  by (simp add: fresh_session_def cached_session_def stored_world_def sample_world_def sample_caps_def
      raising_caps_def)

text \<open>
  C1, counterexample to the order session, then file, then constructor. The session has no
  explainer and the file holds a loadable one (7): the block does not load it, it builds a
  fresh explainer (2) with the constructor and dumps it. And where the session holds an
  explainer (5), the run returns the file's (7), not the one in memory.
\<close>

theorem lookup_order_counterexample:
  "explainer fresh_session = None
   \<and> from_file (explainer_joblib stored_world) = Inr 7
   \<and> fst (main_explainer sample_caps 2 sample_X [0] (fresh_session, stored_world)) = Inr 2
   \<and> trace (snd (snd (main_explainer sample_caps 2 sample_X [0] (fresh_session, stored_world)))) = [ExplainEv, DumpEv]
   \<and> explainer cached_session = Some 5
   \<and> fst (main_explainer sample_caps 2 sample_X [0] (cached_session, stored_world)) = Inr 7"
  by (simp add: main_explainer_def and_then_def dump_def ret_def fresh_session_def cached_session_def
      stored_world_def sample_world_def sample_caps_def)

lemma later_runs_read_file:
  assumes "explainer s = Some a"
  shows "run_all (map (\<lambda>(m, X, y). main_explainer K m X y) later) (s, w) =
           (replicate (length later) (from_file (explainer_joblib w)),
            (s, w\<lparr>trace := trace w @ replicate (length later) FromFileEv\<rparr>))"
  using assms
proof (induction later arbitrary: w)
  case Nil
  then show ?case by simp
next
  case (Cons c later)
  obtain m X y where c: "c = (m, X, y)" by (cases c)
  have step: "main_explainer K m X y (s, w) = (from_file (explainer_joblib w), (s, emit FromFileEv w))"
    using Cons.prems by (simp add: main_explainer_present)
  from Cons.IH [OF Cons.prems, of "emit FromFileEv w"] show ?case
    by (simp add: c step emit_def replicate_append_same)
qed

lemma run_all_raising:
  assumes "explainer s = None" and "explain K model Xte yte = Inl err"
  shows "run_all (replicate n (main_explainer K model Xte yte)) (s, w) =
           (replicate n (Inl err), (s, w\<lparr>trace := trace w @ replicate n ExplainEv\<rparr>))"
proof (induction n arbitrary: w)
  case 0
  show ?case by simp
next
  case (Suc n)
  show ?case
    by (simp add: main_explainer_raises [OF assms] Suc.IH emit_def replicate_append_same)
qed

lemma preserves_run_all:
  assumes "\<forall>m \<in> set ms. preserves P m" and "P s"
  shows "P (snd (run_all ms s))"
  using assms
proof (induction ms arbitrary: s)
  case Nil
  then show ?case by simp
next
  case (Cons m ms)
  from Cons.prems have "P (snd (m s))" by (simp add: preserves_def)
  from Cons.IH [OF _ this] Cons.prems(1) show ?case
    by (simp add: split_beta)
qed

lemma keyed_load_data: "preserves (keyed a c d) load_data"
  by (auto simp: preserves_def keyed_def load_data_def Let_def count_ev_def split: option.splits sum.splits)

lemma keyed_load_model: "preserves (keyed a c d) load_model"
  by (auto simp: preserves_def keyed_def load_model_def count_ev_def split: option.splits sum.splits)

lemma keyed_model_fit: "preserves (keyed a c d) (model_fit K m X y)"
  by (auto simp: preserves_def keyed_def model_fit_def count_ev_def split: option.splits sum.splits)

lemma keyed_main_split: "preserves (keyed a c d) (main_split K X y)"
  by (auto simp: preserves_def keyed_def main_split_def count_ev_def split: option.splits sum.splits)

lemma keyed_main_explainer: "preserves (keyed a c d) (main_explainer K m X y)"
  by (auto simp: preserves_def keyed_def main_explainer_def count_ev_def)

lemma keyed_main_p4: "preserves (keyed a c d) (main_p4 K)"
  unfolding main_p4_def split_def
  by (intro preserves_and_then preserves_lift preserves_ret keyed_load_data keyed_load_model
      keyed_model_fit keyed_main_split keyed_main_explainer)

lemma block_runs_first_returns:
  assumes "explainer s = None" and "explain K model Xte yte = Inr a"
  shows "block_runs K model Xte yte later (s, w) =
     ((if writable w then Inr a else Inl OSError) #
        replicate (length later) (if writable w then Inr a else from_file (explainer_joblib w)),
      (s\<lparr>explainer := Some a\<rparr>,
       w\<lparr>explainer_joblib := (if writable w then Stored a else explainer_joblib w),
         trace := trace w @ [ExplainEv, DumpEv] @ replicate (length later) FromFileEv\<rparr>))"
proof -
  define s1 where "s1 = s\<lparr>explainer := Some a\<rparr>"
  define w1 where "w1 = emit DumpEv (if writable w then (emit ExplainEv w)\<lparr>explainer_joblib := Stored a\<rparr>
                   else emit ExplainEv w)"
  have first: "main_explainer K model Xte yte (s, w) = (if writable w then Inr a else Inl OSError, (s1, w1))"
    using main_explainer_builds [OF assms] by (simp add: s1_def w1_def)
  have "explainer s1 = Some a" by (simp add: s1_def)
  note rest = later_runs_read_file [OF this, of K later w1]
  have w1: "w1 = w\<lparr>explainer_joblib := (if writable w then Stored a else explainer_joblib w),
         trace := trace w @ [ExplainEv, DumpEv]\<rparr>"
    by (simp add: w1_def emit_def)
  have loaded: "from_file (explainer_joblib w1) = (if writable w then Inr a else from_file (explainer_joblib w))"
    by (simp add: w1)
  show ?thesis
    unfolding block_runs_def
    by (simp add: first rest loaded) (simp add: s1_def w1)
qed

text \<open>
  C2, as the code has it. (1) In a session without the key, when the constructor returns
  for the first run of the block: that run stores the explainer and dumps once, and the
  later runs of the block, with whatever arguments, call neither constructor nor dump;
  each returns what it loads from the file, which is the first explainer when the file
  was writable and the loader's result for the old file otherwise (nothing else touching
  the file). (2) Once a session holds the key, no number of runs of page 4 calls the
  constructor or the dump again, and the key stays. (3) When the constructor raises,
  nothing is stored and every further run of the block calls it again.
\<close>

theorem explainer_built_once:
  "(explainer s = None \<and> explain K model Xte yte = Inr a \<longrightarrow>
      fst (block_runs K model Xte yte later (s, w)) =
        (if writable w then Inr a else Inl OSError) #
          replicate (length later) (if writable w then Inr a else from_file (explainer_joblib w))
    \<and> count_ev ExplainEv (snd (block_runs K model Xte yte later (s, w))) = count_ev ExplainEv (s, w) + 1
    \<and> count_ev DumpEv (snd (block_runs K model Xte yte later (s, w))) = count_ev DumpEv (s, w) + 1
    \<and> count_ev FromFileEv (snd (block_runs K model Xte yte later (s, w))) = count_ev FromFileEv (s, w) + length later
    \<and> explainer (fst (snd (block_runs K model Xte yte later (s, w)))) = Some a
    \<and> explainer_joblib (snd (snd (block_runs K model Xte yte later (s, w))))
         = (if writable w then Stored a else explainer_joblib w))
   \<and> (explainer s \<noteq> None \<longrightarrow>
      count_ev ExplainEv (snd (page_runs K n (s, w))) = count_ev ExplainEv (s, w)
    \<and> count_ev DumpEv (snd (page_runs K n (s, w))) = count_ev DumpEv (s, w)
    \<and> explainer (fst (snd (page_runs K n (s, w)))) = explainer s)
   \<and> (explainer s = None \<and> explain K model Xte yte = Inl err \<longrightarrow>
      fst (run_all (replicate n (main_explainer K model Xte yte)) (s, w)) = replicate n (Inl err)
    \<and> count_ev ExplainEv (snd (run_all (replicate n (main_explainer K model Xte yte)) (s, w)))
         = count_ev ExplainEv (s, w) + n
    \<and> explainer (fst (snd (run_all (replicate n (main_explainer K model Xte yte)) (s, w)))) = None)"
proof (intro conjI impI)
  assume h: "explainer s = None \<and> explain K model Xte yte = Inr a"
  note eq = block_runs_first_returns [of s K model Xte yte a later w]
  from h show "fst (block_runs K model Xte yte later (s, w)) =
        (if writable w then Inr a else Inl OSError) #
          replicate (length later) (if writable w then Inr a else from_file (explainer_joblib w))"
    by (simp add: eq)
  from h show "count_ev ExplainEv (snd (block_runs K model Xte yte later (s, w))) = count_ev ExplainEv (s, w) + 1"
    by (simp add: eq count_ev_def count_list_replicate)
  from h show "count_ev DumpEv (snd (block_runs K model Xte yte later (s, w))) = count_ev DumpEv (s, w) + 1"
    by (simp add: eq count_ev_def count_list_replicate)
  from h show "count_ev FromFileEv (snd (block_runs K model Xte yte later (s, w))) = count_ev FromFileEv (s, w) + length later"
    by (simp add: eq count_ev_def count_list_replicate)
  from h show "explainer (fst (snd (block_runs K model Xte yte later (s, w)))) = Some a"
    by (simp add: eq)
  from h show "explainer_joblib (snd (snd (block_runs K model Xte yte later (s, w))))
         = (if writable w then Stored a else explainer_joblib w)"
    by (simp add: eq)
next
  assume "explainer s \<noteq> None"
  then obtain a where a: "explainer s = Some a" by auto
  have "keyed a (count_ev ExplainEv (s, w)) (count_ev DumpEv (s, w)) (s, w)"
    by (simp add: keyed_def a)
  moreover have "\<forall>m \<in> set (replicate n (main_p4 K)). preserves (keyed a (count_ev ExplainEv (s, w)) (count_ev DumpEv (s, w))) m"
    by (simp add: keyed_main_p4)
  ultimately have k: "keyed a (count_ev ExplainEv (s, w)) (count_ev DumpEv (s, w)) (snd (page_runs K n (s, w)))"
    unfolding page_runs_def
    by (rule preserves_run_all [where P = "keyed a (count_ev ExplainEv (s, w)) (count_ev DumpEv (s, w))", rotated])
  from k show "count_ev ExplainEv (snd (page_runs K n (s, w))) = count_ev ExplainEv (s, w)"
    by (simp add: keyed_def)
  from k show "count_ev DumpEv (snd (page_runs K n (s, w))) = count_ev DumpEv (s, w)"
    by (simp add: keyed_def)
  from k show "explainer (fst (snd (page_runs K n (s, w)))) = explainer s"
    by (simp add: keyed_def a)
next
  assume h: "explainer s = None \<and> explain K model Xte yte = Inl err"
  then have eq: "run_all (replicate n (main_explainer K model Xte yte)) (s, w) =
           (replicate n (Inl err), (s, w\<lparr>trace := trace w @ replicate n ExplainEv\<rparr>))"
    by (simp add: run_all_raising)
  show "fst (run_all (replicate n (main_explainer K model Xte yte)) (s, w)) = replicate n (Inl err)"
    by (simp add: eq)
  show "count_ev ExplainEv (snd (run_all (replicate n (main_explainer K model Xte yte)) (s, w)))
         = count_ev ExplainEv (s, w) + n"
    by (simp add: eq count_ev_def count_list_replicate)
  from h show "explainer (fst (snd (run_all (replicate n (main_explainer K model Xte yte)) (s, w)))) = None"
    by (simp add: eq)
qed

text \<open>
  C2, witness: three runs of the block in a fresh session with fitted states 1, 2 and 3, on
  a writable and on an unwritable file; two runs of page 4 in a session that holds the key;
  three runs of the block with a constructor that raises.
\<close>

theorem explainer_built_once_witness:
  "explainer fresh_session = None \<and> explain sample_caps 1 sample_X [0] = Inr 1
   \<and> fst (block_runs sample_caps 1 sample_X [0] [(2, sample_X, [0]), (3, sample_X, [0])] (fresh_session, sample_world))
       = [Inr 1, Inr 1, Inr 1]
   \<and> count_ev ExplainEv (snd (block_runs sample_caps 1 sample_X [0] [(2, sample_X, [0]), (3, sample_X, [0])]
         (fresh_session, sample_world))) = 1
   \<and> fst (block_runs sample_caps 1 sample_X [0] [(2, sample_X, [0]), (3, sample_X, [0])] (fresh_session, readonly_world))
       = [Inl OSError, Inl ValueError, Inl ValueError]
   \<and> count_ev ExplainEv (snd (block_runs sample_caps 1 sample_X [0] [(2, sample_X, [0]), (3, sample_X, [0])]
         (fresh_session, readonly_world))) = 1
   \<and> explainer cached_session \<noteq> None
   \<and> count_ev ExplainEv (snd (page_runs sample_caps 2 (cached_session, stored_world))) = 0
   \<and> explain raising_caps 1 sample_X [0] = Inl ValueError
   \<and> count_ev ExplainEv (snd (run_all (replicate 3 (main_explainer raising_caps 1 sample_X [0]))
         (fresh_session, sample_world))) = 3"
  using explainer_built_once [of fresh_session sample_caps 1 sample_X "[0]" 1
      "[(2, sample_X, [0]), (3, sample_X, [0])]" sample_world 0 ValueError]
    explainer_built_once [of fresh_session sample_caps 1 sample_X "[0]" 1
      "[(2, sample_X, [0]), (3, sample_X, [0])]" readonly_world 0 ValueError]
    explainer_built_once [of cached_session sample_caps 1 sample_X "[0]" 1 "[]" stored_world 2 ValueError]
    explainer_built_once [of fresh_session raising_caps 1 sample_X "[0]" 1 "[]" sample_world 3 ValueError]
  by (simp add: fresh_session_def cached_session_def sample_world_def stored_world_def readonly_world_def
      sample_caps_def raising_caps_def count_ev_def)

text \<open>
  C2, counterexample to "at most once" and to "every later call returns the cached
  in-memory value". With a constructor that raises, two runs in one session call it twice.
  Session A holds explainer 1 in memory; after session B has built and dumped its own
  explainer 2, the next run of session A returns 2. And in a single session whose first
  dump failed, the session holds explainer 1 and the next run raises instead of returning
  it.
\<close>

theorem cached_value_counterexample:
  "count_ev ExplainEv (snd (run_all [main_explainer raising_caps 1 sample_X [0],
        main_explainer raising_caps 1 sample_X [0]] (fresh_session, sample_world))) = 2
   \<and> explainer (fst after_A) = Some 1
   \<and> fst (main_explainer sample_caps 1 sample_X [0] (fst after_A, snd after_B)) = Inr 2
   \<and> explainer (fst after_failed_dump) = Some 1
   \<and> fst (main_explainer sample_caps 1 sample_X [0] after_failed_dump) = Inl ValueError"
  by (simp add: after_A_def after_B_def after_failed_dump_def readonly_world_def count_ev_def
      main_explainer_def and_then_def dump_def ret_def fresh_session_def sample_world_def
      sample_caps_def raising_caps_def emit_def)

section \<open>An unreadable explainer file\<close>

lemma unreadable_load_data: "preserves (unreadable c) load_data"
  by (auto simp: preserves_def unreadable_def load_data_def Let_def count_ev_def split: option.splits sum.splits)

lemma unreadable_load_model: "preserves (unreadable c) load_model"
  by (auto simp: preserves_def unreadable_def load_model_def count_ev_def split: option.splits sum.splits)

lemma unreadable_model_fit: "preserves (unreadable c) (model_fit K m X y)"
  by (auto simp: preserves_def unreadable_def model_fit_def count_ev_def split: option.splits sum.splits)

lemma unreadable_main_split: "preserves (unreadable c) (main_split K X y)"
  by (auto simp: preserves_def unreadable_def main_split_def count_ev_def split: option.splits sum.splits)

lemma unreadable_main_explainer: "preserves (unreadable c) (main_explainer K m X y)"
  by (auto simp: preserves_def unreadable_def main_explainer_def count_ev_def split: option.splits sum.splits)

lemma unreadable_main_explainer_aborts: "aborts_under (unreadable c) (main_explainer K m X y)"
  by (auto simp: aborts_under_def unreadable_def main_explainer_def)

lemmas unreadable_steps = preserves_lift preserves_ret unreadable_load_data unreadable_load_model
  unreadable_model_fit unreadable_main_split unreadable_main_explainer

lemma main_p4_unreadable_aborts: "aborts_under (unreadable c) (main_p4 K)"
  unfolding main_p4_def split_def
  apply (rule aborts_and_then [OF unreadable_load_data])
  apply (rule aborts_and_then [OF preserves_lift])
  apply (rule aborts_and_then [OF preserves_lift])
  apply (rule aborts_and_then [OF unreadable_main_split])
  apply (rule aborts_and_then [OF unreadable_load_model])
  apply (rule aborts_and_then [OF unreadable_model_fit])
  apply (rule aborts_and_then [OF preserves_lift])
  apply (rule aborts_and_then [OF unreadable_model_fit])
  apply (rule aborts_first [OF unreadable_main_explainer_aborts])
  done

lemma main_p4_unreadable_preserves: "preserves (unreadable c) (main_p4 K)"
  unfolding main_p4_def split_def
  by (intro preserves_and_then unreadable_steps)

text \<open>
  C8, as the code has it. The file is consulted only when the session holds the key; when
  it then cannot be loaded, the block raises the loader's exception, the whole run of page 4
  ends in an exception, and the constructor is not called: nothing is recomputed.
\<close>

theorem unreadable_artifact_aborts:
  assumes "explainer s \<noteq> None" and "from_file (explainer_joblib w) = Inl err"
  shows "fst (main_explainer K model Xte yte (s, w)) = Inl err
       \<and> (\<exists>e. fst (main_p4 K (s, w)) = Inl e)
       \<and> count_ev ExplainEv (snd (main_p4 K (s, w))) = count_ev ExplainEv (s, w)"
proof -
  have u: "unreadable (count_ev ExplainEv (s, w)) (s, w)"
    using assms by (auto simp: unreadable_def)
  have 1: "fst (main_explainer K model Xte yte (s, w)) = Inl err"
    using assms by (auto simp: main_explainer_def)
  have 2: "\<exists>e. fst (main_p4 K (s, w)) = Inl e"
    using main_p4_unreadable_aborts [of _ K] u unfolding aborts_under_def by blast
  have "unreadable (count_ev ExplainEv (s, w)) (snd (main_p4 K (s, w)))"
    using main_p4_unreadable_preserves [of _ K] u unfolding preserves_def by blast
  then have 3: "count_ev ExplainEv (snd (main_p4 K (s, w))) = count_ev ExplainEv (s, w)"
    by (simp add: unreadable_def)
  from 1 2 3 show ?thesis by blast
qed

text \<open>C8, witness: the session holds an explainer and the file is corrupt.\<close>

theorem unreadable_artifact_aborts_witness:
  "explainer cached_session \<noteq> None \<and> from_file (explainer_joblib corrupt_world) = Inl EOFError
   \<and> fst (main_explainer sample_caps 2 sample_X [0] (cached_session, corrupt_world)) = Inl EOFError
   \<and> count_ev ExplainEv (snd (main_p4 sample_caps (cached_session, corrupt_world))) = 0"
  using unreadable_artifact_aborts [of cached_session corrupt_world EOFError sample_caps 2 sample_X "[0]"]
  by (simp add: cached_session_def fresh_session_def corrupt_world_def sample_world_def count_ev_def)

text \<open>
  C8, counterexample to "treated as a cache miss, recomputed, not an abort": with the key
  in the session and a corrupt file the run of page 4 ends in the loader's exception, and
  the trace shows no constructor call.
\<close>

theorem corrupt_file_counterexample:
  "fst (main_p4 sample_caps (cached_session, corrupt_world)) = Inl EOFError
   \<and> count_ev ExplainEv (snd (main_p4 sample_caps (cached_session, corrupt_world))) = 0"
  by (simp add: page_defs count_ev_def sample_defs cached_session_def corrupt_world_def)

section \<open>The split\<close>

lemma ceil_fifth: "nat \<lceil>(1 / 5 :: rat) * of_nat n\<rceil> = (n + 4) div 5"
  by linarith

lemma validate_fifth:
  "validate_shuffle_split n (1 / 5) =
     (if n < 2 then Inl ValueError else Inr (n - (n + 4) div 5, (n + 4) div 5))"
  unfolding validate_shuffle_split_def ceil_fifth Let_def
  by (simp; linarith)

lemma iloc_Inr: "\<forall>i \<in> set idx. i < length xs \<Longrightarrow> iloc xs idx = Inr (map (\<lambda>i. xs ! i) idx)"
  by (simp add: iloc_def)

lemma perm_facts:
  assumes "mset p = mset [0..<n]"
  shows "length p = n" and "set p = {0..<n}" and "distinct p"
proof -
  show "length p = n" using assms by (metis length_upt mset_eq_length minus_nat.diff_0)
  show "set p = {0..<n}" using assms by (metis mset_eq_setD set_upt)
  show "distinct p" using assms by (metis distinct_upt mset_eq_imp_distinct_iff)
qed


text \<open>What the split returns, once the generator's output is a permutation of the positions.\<close>

lemma train_test_split_perm:
  assumes perm: "mset (perm seed (length (rows X))) = mset [0..<length (rows X)]"
    and len: "length y = length (rows X)"
    and v: "validate_shuffle_split (length (rows X)) ratio = Inr (n_train, n_test)"
  shows "train_test_split perm e X y ratio (Some seed) =
           Inr (\<lparr>columns = columns X, rows = map (\<lambda>i. rows X ! i) (drop n_test (perm seed (length (rows X))))\<rparr>,
                \<lparr>columns = columns X, rows = map (\<lambda>i. rows X ! i) (take n_test (perm seed (length (rows X))))\<rparr>,
                map (\<lambda>i. y ! i) (drop n_test (perm seed (length (rows X)))),
                map (\<lambda>i. y ! i) (take n_test (perm seed (length (rows X)))))"
    and "n_train + n_test = length (rows X)" and "0 < n_train"
proof -
  let ?n = "length (rows X)"
  let ?p = "perm seed ?n"
  from v show nn: "n_train + n_test = ?n" and pos: "0 < n_train"
    by (auto simp: validate_shuffle_split_def Let_def split: if_splits)
  have lp: "length ?p = ?n" and sp: "set ?p = {0..<?n}"
    using perm_facts [OF perm] by auto
  have tk: "take n_train (drop n_test ?p) = drop n_test ?p"
    using lp nn by simp
  have in_range: "\<forall>i \<in> set (take n_test ?p). i < ?n" "\<forall>i \<in> set (drop n_test ?p). i < ?n"
    using sp by (auto dest: in_set_takeD in_set_dropD)
  show "train_test_split perm e X y ratio (Some seed) =
           Inr (\<lparr>columns = columns X, rows = map (\<lambda>i. rows X ! i) (drop n_test ?p)\<rparr>,
                \<lparr>columns = columns X, rows = map (\<lambda>i. rows X ! i) (take n_test ?p)\<rparr>,
                map (\<lambda>i. y ! i) (drop n_test ?p),
                map (\<lambda>i. y ! i) (take n_test ?p))"
    using len in_range
    by (simp add: train_test_split_def v tk Let_def iloc_Inr)
qed







lemma main_split_absent:
  assumes "X_train s = None"
    and "train_test_split (rng_permutation K) (entropy w) X y (1 / 5) (Some 7) = Inr (Xtr, Xte, ytr, yte)"
  shows "main_split K X y (s, w) =
           (Inr (Xtr, Xte, ytr, yte),
            (s\<lparr>X_train := Some Xtr, y_train := Some ytr, X_test := Some Xte, y_test := Some yte\<rparr>,
             emit SplitEv w))"
  using assms by (simp add: main_split_def)

lemma main_split_present:
  assumes "X_train s = Some Xtr" "y_train s = Some ytr" "X_test s = Some Xte" "y_test s = Some yte"
  shows "main_split K X y (s, w) = (Inr (Xtr, Xte, ytr, yte), (s, w))"
  using assms by (simp add: main_split_def)

lemma later_runs_read_session:
  assumes "X_train s = Some Xtr" "y_train s = Some ytr" "X_test s = Some Xte" "y_test s = Some yte"
  shows "run_all (map (\<lambda>(X, y). main_split K X y) later) (s, w) =
           (replicate (length later) (Inr (Xtr, Xte, ytr, yte)), (s, w))"
proof (induction later)
  case Nil
  show ?case by simp
next
  case (Cons c later)
  obtain X y where c: "c = (X, y)" by (cases c)
  show ?case
    by (simp add: c main_split_present [OF assms] Cons.IH)
qed

lemma split_stored_once:
  assumes "X_train s = None"
    and "train_test_split (rng_permutation K) (entropy w) X y (1 / 5) (Some 7) = Inr sp"
  shows "split_runs K X y later (s, w) =
      (replicate (Suc (length later)) (Inr sp),
       (s\<lparr>X_train := Some (fst sp), y_train := Some (fst (snd (snd sp))),
          X_test := Some (fst (snd sp)), y_test := Some (snd (snd (snd sp)))\<rparr>,
        emit SplitEv w))"
proof -
  obtain Xtr Xte ytr yte where sp: "sp = (Xtr, Xte, ytr, yte)"
    by (cases sp) auto
  define s1 where "s1 = s\<lparr>X_train := Some Xtr, y_train := Some ytr, X_test := Some Xte, y_test := Some yte\<rparr>"
  have first: "main_split K X y (s, w) = (Inr sp, (s1, emit SplitEv w))"
    using main_split_absent [OF assms(1) assms(2) [unfolded sp]] by (simp add: sp s1_def)
  have keys: "X_train s1 = Some Xtr" "y_train s1 = Some ytr" "X_test s1 = Some Xte" "y_test s1 = Some yte"
    by (simp_all add: s1_def)
  show ?thesis
    unfolding split_runs_def
    by (simp add: first later_runs_read_session [OF keys] sp) (simp add: s1_def)
qed

lemma split_raising_runs:
  assumes "X_train s = None"
    and "train_test_split (rng_permutation K) (entropy w) X y (1 / 5) (Some 7) = Inl e"
  shows "run_all (replicate n (main_split K X y)) (s, w) =
           (replicate n (Inl e), (s, w\<lparr>trace := trace w @ replicate n SplitEv\<rparr>))"
  using assms(2)
proof (induction n arbitrary: w)
  case 0
  show ?case by simp
next
  case (Suc n)
  have step: "main_split K X y (s, w) = (Inl e, (s, emit SplitEv w))"
    using assms(1) Suc.prems by (simp add: main_split_def)
  have "train_test_split (rng_permutation K) (entropy (emit SplitEv w)) X y (1 / 5) (Some 7) = Inl e"
    using Suc.prems by simp
  from Suc.IH [OF this] show ?case
    by (simp add: step emit_def replicate_append_same)
qed

text \<open>
  C3, as the code has it. The session store is the pattern of lines 97 to 107 (the split)
  and 141 to 146 (the explainer). (1) In a session without the key \<^verbatim>\<open>X_train\<close>,
  when the split of the first run returns a value, that run stores it, and every later run
  of the session, with whatever table, returns the stored split: the split routine was
  called once. (2) When the split raises, nothing is stored and each of \<open>n\<close> runs calls
  it again. (3) For the key \<^verbatim>\<open>explainer\<close>, a run in a session that holds a stored
  value does not call the constructor, and returns what loading the file gives, not the
  stored value.
\<close>

theorem split_computed_once:
  "(X_train s = None \<and> train_test_split (rng_permutation K) (entropy w) X y (1 / 5) (Some 7) = Inr sp \<longrightarrow>
      fst (split_runs K X y later (s, w)) = replicate (Suc (length later)) (Inr sp)
    \<and> count_ev SplitEv (snd (split_runs K X y later (s, w))) = count_ev SplitEv (s, w) + 1
    \<and> (X_train (fst (snd (split_runs K X y later (s, w)))),
        X_test (fst (snd (split_runs K X y later (s, w)))),
        y_train (fst (snd (split_runs K X y later (s, w)))),
        y_test (fst (snd (split_runs K X y later (s, w)))))
         = (Some (fst sp), Some (fst (snd sp)), Some (fst (snd (snd sp))), Some (snd (snd (snd sp)))))
   \<and> (X_train s = None \<and> train_test_split (rng_permutation K) (entropy w) X y (1 / 5) (Some 7) = Inl e \<longrightarrow>
      fst (run_all (replicate n (main_split K X y)) (s, w)) = replicate n (Inl e)
    \<and> count_ev SplitEv (snd (run_all (replicate n (main_split K X y)) (s, w))) = count_ev SplitEv (s, w) + n
    \<and> X_train (fst (snd (run_all (replicate n (main_split K X y)) (s, w)))) = None)
   \<and> (explainer s = Some a \<longrightarrow>
      fst (main_explainer K model Xte yte (s, w)) = from_file (explainer_joblib w)
    \<and> count_ev ExplainEv (snd (main_explainer K model Xte yte (s, w))) = count_ev ExplainEv (s, w)
    \<and> explainer (fst (snd (main_explainer K model Xte yte (s, w)))) = Some a)"
proof (intro conjI impI)
  assume h: "X_train s = None \<and> train_test_split (rng_permutation K) (entropy w) X y (1 / 5) (Some 7) = Inr sp"
  then have eq: "split_runs K X y later (s, w) =
      (replicate (Suc (length later)) (Inr sp),
       (s\<lparr>X_train := Some (fst sp), y_train := Some (fst (snd (snd sp))),
          X_test := Some (fst (snd sp)), y_test := Some (snd (snd (snd sp)))\<rparr>,
        emit SplitEv w))"
    by (simp add: split_stored_once)
  show "fst (split_runs K X y later (s, w)) = replicate (Suc (length later)) (Inr sp)"
    by (simp add: eq)
  show "count_ev SplitEv (snd (split_runs K X y later (s, w))) = count_ev SplitEv (s, w) + 1"
    by (simp add: eq count_ev_def)
  show "(X_train (fst (snd (split_runs K X y later (s, w)))),
        X_test (fst (snd (split_runs K X y later (s, w)))),
        y_train (fst (snd (split_runs K X y later (s, w)))),
        y_test (fst (snd (split_runs K X y later (s, w)))))
         = (Some (fst sp), Some (fst (snd sp)), Some (fst (snd (snd sp))), Some (snd (snd (snd sp))))"
    by (simp add: eq)
next
  assume h: "X_train s = None \<and> train_test_split (rng_permutation K) (entropy w) X y (1 / 5) (Some 7) = Inl e"
  then have eq: "run_all (replicate n (main_split K X y)) (s, w) =
           (replicate n (Inl e), (s, w\<lparr>trace := trace w @ replicate n SplitEv\<rparr>))"
    by (simp add: split_raising_runs)
  show "fst (run_all (replicate n (main_split K X y)) (s, w)) = replicate n (Inl e)"
    by (simp add: eq)
  show "count_ev SplitEv (snd (run_all (replicate n (main_split K X y)) (s, w))) = count_ev SplitEv (s, w) + n"
    by (simp add: eq count_ev_def count_list_replicate)
  from h show "X_train (fst (snd (run_all (replicate n (main_split K X y)) (s, w)))) = None"
    by (simp add: eq)
next
  assume a: "explainer s = Some a"
  note eq = main_explainer_present [OF a, of K model Xte yte w]
  show "fst (main_explainer K model Xte yte (s, w)) = from_file (explainer_joblib w)"
    by (simp add: eq)
  show "count_ev ExplainEv (snd (main_explainer K model Xte yte (s, w))) = count_ev ExplainEv (s, w)"
    by (simp add: eq)
  show "explainer (fst (snd (main_explainer K model Xte yte (s, w)))) = Some a"
    by (simp add: eq a)
qed

text \<open>
  C3, witness: three runs in a fresh session, the last with a different table; two runs on
  a one-row table, whose split raises; and a run in a session that holds an explainer.
\<close>

theorem split_computed_once_witness:
  "X_train fresh_session = None
   \<and> train_test_split (rng_permutation sample_caps) (entropy sample_world) sample_features sample_labels (1 / 5) (Some 7) =
       Inr sample_split
   \<and> count_ev SplitEv (snd (split_runs sample_caps sample_features sample_labels
          [(sample_features, sample_labels), (sample_X, [])] (fresh_session, sample_world))) = 1
   \<and> fst (split_runs sample_caps sample_features sample_labels
          [(sample_features, sample_labels), (sample_X, [])] (fresh_session, sample_world)) =
       [Inr sample_split, Inr sample_split, Inr sample_split]
   \<and> train_test_split (rng_permutation sample_caps) (entropy sample_world) sample_X [(4, ''low risk'')] (1 / 5) (Some 7) =
       Inl ValueError
   \<and> count_ev SplitEv (snd (run_all (replicate 2 (main_split sample_caps sample_X [(4, ''low risk'')]))
          (fresh_session, sample_world))) = 2
   \<and> explainer cached_session = Some 5
   \<and> fst (main_explainer sample_caps 2 sample_X [0] (cached_session, stored_world)) = Inr 7"
proof -
  have x: "X_train fresh_session = None"
    by (simp add: fresh_session_def)
  have sp: "train_test_split (rng_permutation sample_caps) (entropy sample_world) sample_features sample_labels (1 / 5) (Some 7) =
       Inr sample_split"
    by (simp add: sample_caps_def sample_world_def sample_features_def sample_labels_def sample_split_def
        train_test_split_def validate_shuffle_split_def iloc_def Let_def)
  have r: "train_test_split (rng_permutation sample_caps) (entropy sample_world) sample_X [(4, ''low risk'')] (1 / 5) (Some 7) =
       Inl ValueError"
    by (simp add: sample_X_def train_test_split_def validate_fifth)
  have k: "explainer cached_session = Some 5"
    by (simp add: cached_session_def)
  have c: "count_ev SplitEv (fresh_session, sample_world) = 0"
    by (simp add: count_ev_def sample_world_def)
  have f: "from_file (explainer_joblib stored_world) = Inr 7"
    by (simp add: stored_world_def)
  from split_computed_once [of fresh_session sample_caps sample_world sample_features sample_labels
      sample_split "[(sample_features, sample_labels), (sample_X, [])]" ValueError 0 5 2 sample_X "[0]"]
    split_computed_once [of fresh_session sample_caps sample_world sample_X "[(4, ''low risk'')]"
      sample_split "[]" ValueError 2 5 2 sample_X "[0]"]
    split_computed_once [of cached_session sample_caps stored_world sample_X "[(4, ''low risk'')]"
      sample_split "[]" ValueError 2 5 2 sample_X "[0]"]
    x sp r k c f
  show ?thesis by simp
qed

text \<open>
  C3, counterexample to "for every key, at most once, later calls return the stored
  value". On a one-row table the split raises and two runs of the session call it twice.
  For the key \<^verbatim>\<open>explainer\<close> the session holds explainer 5 and the run returns the
  file's explainer 7.
\<close>

theorem stored_value_counterexample:
  "fst (run_all [main_split sample_caps sample_X [(4, ''low risk'')],
                 main_split sample_caps sample_X [(4, ''low risk'')]] (fresh_session, sample_world))
     = [Inl ValueError, Inl ValueError]
   \<and> count_ev SplitEv (snd (run_all [main_split sample_caps sample_X [(4, ''low risk'')],
                 main_split sample_caps sample_X [(4, ''low risk'')]] (fresh_session, sample_world))) = 2
   \<and> explainer cached_session = Some 5
   \<and> fst (main_explainer sample_caps 2 sample_X [0] (cached_session, stored_world)) = Inr 7"
  by (simp add: main_split_def train_test_split_def validate_fifth main_explainer_def
      count_ev_def emit_def fresh_session_def cached_session_def sample_world_def stored_world_def
      sample_caps_def sample_X_def)

section \<open>Accuracy and confusion matrix\<close>

lemma unique_facts:
  "sorted (unique ys)" "distinct (unique ys)" "set (unique ys) = set ys"
  by (simp_all add: unique_def)

lemma sum_list_indicator:
  assumes "distinct L" and "a \<in> set L"
  shows "sum_list (map (\<lambda>l. if a = l then c else (0::nat)) L) = c"
  using assms by (induction L) auto

lemma sum_list_indicator_none:
  "sum_list (map (\<lambda>l. (0::nat)) L) = 0"
  by (induction L) auto

text \<open>Counting by class adds up to the whole, when the classes are distinct and cover
  every element.\<close>

lemma count_by_class:
  assumes "distinct L" and "\<forall>x \<in> set xs. f x \<in> set L"
  shows "sum_list (map (\<lambda>l. length (filter (\<lambda>x. f x = l \<and> P x) xs)) L) = length (filter P xs)"
  using assms(2)
proof (induction xs)
  case Nil
  show ?case by (simp add: sum_list_indicator_none)
next
  case (Cons x xs)
  have fx: "f x \<in> set L" using Cons.prems by simp
  have "sum_list (map (\<lambda>l. length (filter (\<lambda>x. f x = l \<and> P x) (x # xs))) L)
      = sum_list (map (\<lambda>l. (if f x = l then (if P x then 1 else 0) else 0) + length (filter (\<lambda>x. f x = l \<and> P x) xs)) L)"
    by (intro arg_cong [where f = sum_list] map_cong) auto
  also have "\<dots> = sum_list (map (\<lambda>l. if f x = l then (if P x then 1 else 0) else 0) L)
      + sum_list (map (\<lambda>l. length (filter (\<lambda>x. f x = l \<and> P x) xs)) L)"
    by (simp add: sum_list_addf)
  also have "\<dots> = (if P x then 1 else 0) + length (filter P xs)"
    using Cons.IH Cons.prems sum_list_indicator [OF assms(1) fx] by simp
  finally show ?case by simp
qed

lemma cm_row_sum:
  assumes "distinct L" and "set y_pred \<subseteq> set L"
  shows "sum_list (map (\<lambda>p. cell_count y_true y_pred t p) L) =
           length (filter (\<lambda>(a, b). a = t) (zip y_true y_pred))"
proof -
  have cover: "\<forall>x \<in> set (zip y_true y_pred). snd x \<in> set L"
    using assms(2) by (auto dest: set_zip_rightD)
  have "cell_count y_true y_pred t = (\<lambda>p. length (filter (\<lambda>x. snd x = p \<and> fst x = t) (zip y_true y_pred)))"
    by (auto simp: cell_count_def fun_eq_iff intro!: arg_cong [where f = length] filter_cong)
  then have "sum_list (map (\<lambda>p. cell_count y_true y_pred t p) L) =
      length (filter (\<lambda>x. fst x = t) (zip y_true y_pred))"
    using count_by_class [OF assms(1) cover, of "\<lambda>x. fst x = t"] by simp
  also have "\<dots> = length (filter (\<lambda>(a, b). a = t) (zip y_true y_pred))"
    by (simp add: case_prod_unfold)
  finally show ?thesis .
qed

lemma cm_total_sum:
  assumes "distinct L" and "set y_true \<subseteq> set L" and "set y_pred \<subseteq> set L"
    and "length y_true = length y_pred"
  shows "sum_list (map sum_list (map (\<lambda>t. map (\<lambda>p. cell_count y_true y_pred t p) L) L)) = length y_true"
proof -
  have cover: "\<forall>x \<in> set (zip y_true y_pred). fst x \<in> set L"
    using assms(2) by (auto dest: set_zip_leftD)
  have "sum_list (map sum_list (map (\<lambda>t. map (\<lambda>p. cell_count y_true y_pred t p) L) L))
      = sum_list (map (\<lambda>t. length (filter (\<lambda>x. fst x = t \<and> True) (zip y_true y_pred))) L)"
    by (simp add: comp_def cm_row_sum [OF assms(1) assms(3)] case_prod_unfold)
  also have "\<dots> = length (filter (\<lambda>x. True) (zip y_true y_pred))"
    by (rule count_by_class [OF assms(1) cover])
  also have "\<dots> = length y_true"
    using assms(4) by simp
  finally show ?thesis .
qed

lemma confusion_matrix_facts:
  assumes "confusion_matrix y_true y_pred = Inr c"
  shows "c = map (\<lambda>t. map (\<lambda>p. cell_count y_true y_pred t p) (unique_labels y_true y_pred)) (unique_labels y_true y_pred)"
    and "length c = length (unique_labels y_true y_pred)"
    and "\<forall>row \<in> set c. length row = length (unique_labels y_true y_pred)"
    and "sum_list (map sum_list c) = length y_true"
    and "length y_true = length y_pred"
proof -
  from assms show len: "length y_true = length y_pred"
    by (auto simp: confusion_matrix_def split: if_splits)
  from assms len show c: "c = map (\<lambda>t. map (\<lambda>p. cell_count y_true y_pred t p) (unique_labels y_true y_pred)) (unique_labels y_true y_pred)"
    by (auto simp: confusion_matrix_def Let_def split: if_splits)
  show "length c = length (unique_labels y_true y_pred)"
    and "\<forall>row \<in> set c. length row = length (unique_labels y_true y_pred)"
    by (auto simp: c)
  have "distinct (unique_labels y_true y_pred)"
    and "set y_true \<subseteq> set (unique_labels y_true y_pred)"
    and "set y_pred \<subseteq> set (unique_labels y_true y_pred)"
    by (auto simp: unique_labels_def unique_facts)
  from cm_total_sum [OF this len] show "sum_list (map sum_list c) = length y_true"
    by (simp add: c)
qed

lemma accuracy_score_range:
  assumes "accuracy_score y_true y_pred = Inr a"
  shows "0 \<le> a" and "a \<le> 1"
proof -
  let ?k = "length (filter (\<lambda>(t, p). t = p) (zip y_true y_pred))"
  from assms have a: "a = of_nat ?k / of_nat (length y_true)" and len: "length y_true = length y_pred"
    by (auto simp: accuracy_score_def split: if_splits)
  show "0 \<le> a" by (simp add: a)
  have "?k \<le> length (zip y_true y_pred)" by (rule length_filter_le)
  then have "?k \<le> length y_true" using len by simp
  then have "(of_nat ?k :: rat) \<le> of_nat (length y_true)" by simp
  then show "a \<le> 1"
    unfolding a by (simp add: divide_le_eq_1)
qed


lemma display_results_p4_Inr:
  assumes "display_results_p4 K model Xtr ytr Xte yte = Inr r"
  shows "confusion_matrix (map snd yte) (predict K model Xte) = Inr (cm r)"
    and "accuracy_score (map snd yte) (predict K model Xte) = Inr (accuracy_test r)"
    and "\<exists>a. accuracy_score (map snd ytr) (predict K model Xtr) = Inr a \<and> accuracy_train r = Some a"
    and "samples_train r = Some (length ytr)" and "samples_test r = Some (length yte)"
    and "heatmap_z r = rev (cm r)"
    and "heatmap_x r = [''High Risk'', ''Low Risk'', ''Medium Risk'']"
    and "heatmap_y r = [''Medium Risk'', ''Low Risk'', ''High Risk'']"
  using assms by (auto simp: display_results_p4_def Let_def split: sum.splits)

lemma display_results_p2_Inr:
  assumes "display_results_p2 K model Xte yte = Inr r"
  shows "confusion_matrix (map snd yte) (predict K model Xte) = Inr (cm r)"
    and "accuracy_score (map snd yte) (predict K model Xte) = Inr (accuracy_test r)"
    and "heatmap_z r = rev (cm r)"
    and "heatmap_x r = [''High Risk'', ''Low Risk'', ''Medium Risk'']"
    and "heatmap_y r = [''Medium Risk'', ''Low Risk'', ''High Risk'']"
  using assms by (auto simp: display_results_p2_def Let_def split: sum.splits)

lemma cm_shape:
  assumes "confusion_matrix y_true y_pred = Inr c"
  shows "sorted (unique_labels y_true y_pred) \<and> distinct (unique_labels y_true y_pred)
       \<and> set (unique_labels y_true y_pred) = set y_true \<union> set y_pred
       \<and> c = map (\<lambda>t. map (\<lambda>p. cell_count y_true y_pred t p) (unique_labels y_true y_pred))
                   (unique_labels y_true y_pred)
       \<and> length c = card (set y_true \<union> set y_pred)
       \<and> (\<forall>row \<in> set c. length row = length c)
       \<and> sum_list (map sum_list c) = length y_true"
proof -
  note f = confusion_matrix_facts [OF assms]
  have u: "sorted (unique_labels y_true y_pred)" "distinct (unique_labels y_true y_pred)"
    "set (unique_labels y_true y_pred) = set y_true \<union> set y_pred"
    by (simp_all add: unique_labels_def unique_facts)
  have "length (unique_labels y_true y_pred) = card (set y_true \<union> set y_pred)"
    using u(2) u(3) by (metis distinct_card)
  with f u show ?thesis by simp
qed


text \<open>Page 2 shows the same matrix.\<close>

lemma confusion_matrix_of_validation_p2:
  assumes "display_results_p2 K model Xte yte = Inr r"
  shows "cm r = map (\<lambda>t. map (\<lambda>p. cell_count (map snd yte) (predict K model Xte) t p)
                                (unique_labels (map snd yte) (predict K model Xte)))
                      (unique_labels (map snd yte) (predict K model Xte))
       \<and> length (cm r) = card (set (map snd yte) \<union> set (predict K model Xte))
       \<and> (\<forall>row \<in> set (cm r). length row = length (cm r))
       \<and> sum_list (map sum_list (cm r)) = length yte
       \<and> heatmap_x r = [''High Risk'', ''Low Risk'', ''Medium Risk'']"
proof -
  note shape = cm_shape [OF display_results_p2_Inr(1) [OF assms], unfolded length_map]
  note heat = display_results_p2_Inr(3-5) [OF assms]
  from shape heat show ?thesis by blast
qed




section \<open>A whole run of page 4\<close>

lemma and_then_InrE:
  assumes "and_then m f s = (Inr r, s'')"
  obtains x s' where "m s = (Inr x, s')" and "f x s' = (Inr r, s'')"
  using assms by (auto simp: and_then_def split: prod.splits sum.splits)

lemma lift_InrE:
  assumes "lift v s = (Inr x, s')"
  obtains "v = Inr x" and "s' = s"
  using assms by (auto simp: lift_def)

text \<open>A run of page 4 that reaches its end, step by step.\<close>

lemma main_p4_InrE:
  assumes "main_p4 K st = (Inr out, st')"
  obtains df target X y Xtr Xte ytr yte m0 m1 r m2 e st1 st2 st3 st4 st5 where
    "load_data st = (Inr (df, target), st1)"
    "drop_column df target = Inr X"
    "get_column df target = Inr y"
    "main_split K X y st1 = (Inr (Xtr, Xte, ytr, yte), st2)"
    "load_model st2 = (Inr m0, st3)"
    "model_fit K m0 Xtr (Labels (map snd ytr)) st3 = (Inr m1, st4)"
    "display_results_p4 K m1 Xtr ytr Xte yte = Inr r"
    "model_fit K m1 Xtr (Codes (fit_transform (map snd ytr))) st4 = (Inr m2, st5)"
    "main_explainer K m2 Xte (fit_transform (map snd yte)) st5 = (Inr e, st')"
    "out = \<lparr>shown_train = length (rows Xtr), shown_test = length (rows Xte), results = r,
            importances_from = Some e\<rparr>"
proof -
  from assms [unfolded main_p4_def] obtain a st1 where
    1: "load_data st = (Inr a, st1)" and
    r1: "(case a of (df, target) \<Rightarrow>
     and_then (lift (drop_column df target)) (\<lambda>X.
     and_then (lift (get_column df target)) (\<lambda>y.
     and_then (main_split K X y) (\<lambda>(Xtr, Xte, ytr, yte).
     and_then load_model (\<lambda>model.
     and_then (model_fit K model Xtr (Labels (map snd ytr))) (\<lambda>model.
     and_then (lift (display_results_p4 K model Xtr ytr Xte yte)) (\<lambda>r.
     and_then (model_fit K model Xtr (Codes (fit_transform (map snd ytr)))) (\<lambda>model.
     and_then (main_explainer K model Xte (fit_transform (map snd yte))) (\<lambda>e.
     ret \<lparr>shown_train = length (rows Xtr), shown_test = length (rows Xte),
          results = r, importances_from = Some e\<rparr>))))))))) st1 = (Inr out, st')"
    by (rule and_then_InrE)
  obtain df target where a: "a = (df, target)" by (cases a)
  from r1 [unfolded a prod.case] obtain X s2 where
    2: "lift (drop_column df target) st1 = (Inr X, s2)" and
    r2: "and_then (lift (get_column df target)) (\<lambda>y.
     and_then (main_split K X y) (\<lambda>(Xtr, Xte, ytr, yte).
     and_then load_model (\<lambda>model.
     and_then (model_fit K model Xtr (Labels (map snd ytr))) (\<lambda>model.
     and_then (lift (display_results_p4 K model Xtr ytr Xte yte)) (\<lambda>r.
     and_then (model_fit K model Xtr (Codes (fit_transform (map snd ytr)))) (\<lambda>model.
     and_then (main_explainer K model Xte (fit_transform (map snd yte))) (\<lambda>e.
     ret \<lparr>shown_train = length (rows Xtr), shown_test = length (rows Xte),
          results = r, importances_from = Some e\<rparr>))))))) s2 = (Inr out, st')"
    by (rule and_then_InrE)
  from 2 have 2: "drop_column df target = Inr X" and s2: "s2 = st1"
    by (auto elim: lift_InrE)
  from r2 obtain y s3 where
    3: "lift (get_column df target) s2 = (Inr y, s3)" and
    r3: "and_then (main_split K X y) (\<lambda>(Xtr, Xte, ytr, yte).
     and_then load_model (\<lambda>model.
     and_then (model_fit K model Xtr (Labels (map snd ytr))) (\<lambda>model.
     and_then (lift (display_results_p4 K model Xtr ytr Xte yte)) (\<lambda>r.
     and_then (model_fit K model Xtr (Codes (fit_transform (map snd ytr)))) (\<lambda>model.
     and_then (main_explainer K model Xte (fit_transform (map snd yte))) (\<lambda>e.
     ret \<lparr>shown_train = length (rows Xtr), shown_test = length (rows Xte),
          results = r, importances_from = Some e\<rparr>)))))) s3 = (Inr out, st')"
    by (rule and_then_InrE)
  from 3 have 3: "get_column df target = Inr y" and s3: "s3 = st1"
    by (auto elim: lift_InrE simp: s2)
  from r3 obtain sp st2 where
    4: "main_split K X y s3 = (Inr sp, st2)" and
    r4: "(case sp of (Xtr, Xte, ytr, yte) \<Rightarrow>
     and_then load_model (\<lambda>model.
     and_then (model_fit K model Xtr (Labels (map snd ytr))) (\<lambda>model.
     and_then (lift (display_results_p4 K model Xtr ytr Xte yte)) (\<lambda>r.
     and_then (model_fit K model Xtr (Codes (fit_transform (map snd ytr)))) (\<lambda>model.
     and_then (main_explainer K model Xte (fit_transform (map snd yte))) (\<lambda>e.
     ret \<lparr>shown_train = length (rows Xtr), shown_test = length (rows Xte),
          results = r, importances_from = Some e\<rparr>)))))) st2 = (Inr out, st')"
    by (rule and_then_InrE)
  obtain Xtr Xte ytr yte where sp: "sp = (Xtr, Xte, ytr, yte)" by (cases sp) auto
  from r4 [unfolded sp prod.case] obtain m0 st3 where
    5: "load_model st2 = (Inr m0, st3)" and
    r5: "and_then (model_fit K m0 Xtr (Labels (map snd ytr))) (\<lambda>model.
     and_then (lift (display_results_p4 K model Xtr ytr Xte yte)) (\<lambda>r.
     and_then (model_fit K model Xtr (Codes (fit_transform (map snd ytr)))) (\<lambda>model.
     and_then (main_explainer K model Xte (fit_transform (map snd yte))) (\<lambda>e.
     ret \<lparr>shown_train = length (rows Xtr), shown_test = length (rows Xte),
          results = r, importances_from = Some e\<rparr>)))) st3 = (Inr out, st')"
    by (rule and_then_InrE)
  from r5 obtain m1 st4 where
    6: "model_fit K m0 Xtr (Labels (map snd ytr)) st3 = (Inr m1, st4)" and
    r6: "and_then (lift (display_results_p4 K m1 Xtr ytr Xte yte)) (\<lambda>r.
     and_then (model_fit K m1 Xtr (Codes (fit_transform (map snd ytr)))) (\<lambda>model.
     and_then (main_explainer K model Xte (fit_transform (map snd yte))) (\<lambda>e.
     ret \<lparr>shown_train = length (rows Xtr), shown_test = length (rows Xte),
          results = r, importances_from = Some e\<rparr>))) st4 = (Inr out, st')"
    by (rule and_then_InrE)
  from r6 obtain r s7 where
    7: "lift (display_results_p4 K m1 Xtr ytr Xte yte) st4 = (Inr r, s7)" and
    r7: "and_then (model_fit K m1 Xtr (Codes (fit_transform (map snd ytr)))) (\<lambda>model.
     and_then (main_explainer K model Xte (fit_transform (map snd yte))) (\<lambda>e.
     ret \<lparr>shown_train = length (rows Xtr), shown_test = length (rows Xte),
          results = r, importances_from = Some e\<rparr>)) s7 = (Inr out, st')"
    by (rule and_then_InrE)
  from 7 have 7: "display_results_p4 K m1 Xtr ytr Xte yte = Inr r" and s7: "s7 = st4"
    by (auto elim: lift_InrE)
  from r7 obtain m2 st5 where
    8: "model_fit K m1 Xtr (Codes (fit_transform (map snd ytr))) s7 = (Inr m2, st5)" and
    r8: "and_then (main_explainer K m2 Xte (fit_transform (map snd yte))) (\<lambda>e.
     ret \<lparr>shown_train = length (rows Xtr), shown_test = length (rows Xte),
          results = r, importances_from = Some e\<rparr>) st5 = (Inr out, st')"
    by (rule and_then_InrE)
  from r8 obtain e s9 where
    9: "main_explainer K m2 Xte (fit_transform (map snd yte)) st5 = (Inr e, s9)" and
    r9: "ret \<lparr>shown_train = length (rows Xtr), shown_test = length (rows Xte),
          results = r, importances_from = Some e\<rparr> s9 = (Inr out, st')"
    by (rule and_then_InrE)
  from r9 have out: "out = \<lparr>shown_train = length (rows Xtr), shown_test = length (rows Xte),
          results = r, importances_from = Some e\<rparr>" and s9: "s9 = st'"
    by (auto simp: ret_def)
  show thesis
    using that [OF 1 [unfolded a] 2 3 4 [unfolded s3 sp] 5 6 7 8 [unfolded s7] 9 [unfolded s9] out] .
qed


text \<open>What each step leaves alone, and which fits it adds to the trace.\<close>

lemma load_data_effect:
  assumes "load_data (s, w) = (r, (s1, w1))"
  shows "s1 = s" "model_cache w1 = model_cache w" "pkl w1 = pkl w"
    "explainer_joblib w1 = explainer_joblib w"
    "\<exists>evs. trace w1 = trace w @ evs \<and> filter is_fit evs = []"
  using assms by (auto simp: load_data_def Let_def split: option.splits sum.splits)

lemma main_split_effect:
  assumes "main_split K X y (s, w) = (Inr (Xtr, Xte, ytr, yte), (s1, w1))"
  shows "explainer s1 = explainer s" "model_cache w1 = model_cache w" "pkl w1 = pkl w"
    "explainer_joblib w1 = explainer_joblib w"
    "\<exists>evs. trace w1 = trace w @ evs \<and> filter is_fit evs = []"
    "X_train s1 = Some Xtr" "y_train s1 = Some ytr" "X_test s1 = Some Xte" "y_test s1 = Some yte"
  using assms by (auto simp: main_split_def split: option.splits sum.splits)

lemma load_model_effect:
  assumes "load_model (s, w) = (Inr m0, (s1, w1))"
  shows "s1 = s" "model_cache w = Some m0 \<or> (model_cache w = None \<and> pkl w = Some m0)"
    "explainer_joblib w1 = explainer_joblib w"
    "\<exists>evs. trace w1 = trace w @ evs \<and> filter is_fit evs = []"
  using assms by (auto simp: load_model_def split: option.splits)

lemma model_fit_effect:
  assumes "model_fit K m X y (s, w) = (Inr m', (s1, w1))"
  shows "s1 = s" "fit K m X y = Inr m'" "model_cache w1 = Some m'"
    "explainer_joblib w1 = explainer_joblib w"
    "trace w1 = trace w @ [FitEv (kind_of y)]"
  using assms by (auto simp: model_fit_def split: sum.splits)

lemma main_explainer_effect:
  assumes "main_explainer K m X y (s, w) = (Inr e, (s1, w1))"
  shows "model_cache w1 = model_cache w"
    "explainer s = None \<longrightarrow> explain K m X y = Inr e"
    "explainer s \<noteq> None \<longrightarrow> from_file (explainer_joblib w) = Inr e"
    "\<exists>evs. trace w1 = trace w @ evs \<and> filter is_fit evs = []"
    "X_train s1 = X_train s" "X_test s1 = X_test s" "y_train s1 = y_train s" "y_test s1 = y_test s"
  using assms
  by (auto simp: main_explainer_def and_then_def dump_def ret_def
      split: option.splits sum.splits if_splits)

text \<open>The codes of \<^verbatim>\<open>LabelEncoder\<close>: one code per label, each the position of its label
  among the sorted distinct labels.\<close>

lemma index_of_nth:
  assumes "a \<in> set xs"
  shows "index_of xs a < length xs \<and> xs ! index_of xs a = a"
  using assms by (induction xs) auto

lemma fit_transform_decodes:
  "length (fit_transform ys) = length ys"
  "i < length ys \<Longrightarrow> fit_transform ys ! i < length (unique ys)"
  "i < length ys \<Longrightarrow> unique ys ! (fit_transform ys ! i) = ys ! i"
  using index_of_nth [of "ys ! i" "unique ys"]
  by (simp_all add: fit_transform_def unique_def)

text \<open>
  C10, as the code has it. In every run of page 4 that reaches its end, the one model object
  (the cached one, or the unpickled one on the process's first run) is fitted exactly twice:
  first on the training rows with their raw labels, and the report (accuracies and
  confusion matrix) is computed from that fitted state; then, starting from that state, on
  the same training rows with the integer codes of the labels (each code the position of
  its label among the sorted distinct training labels), which is the state the object is
  left in. The training and validation sets are the ones the session holds afterwards.
  When the session had no explainer, the run builds it from the second fitted state and the
  encoded validation labels; when the session had one, the run shows the explainer loaded
  from the file as it was, not one built from this run's fitted states.
\<close>

theorem fitted_twice:
  assumes "main_p4 K (s, w) = (Inr out, (s', w'))"
  shows "\<exists>Xtr Xte ytr yte m0 m1 m2 evs e.
      (model_cache w = Some m0 \<or> (model_cache w = None \<and> pkl w = Some m0))
    \<and> X_train s' = Some Xtr \<and> y_train s' = Some ytr \<and> X_test s' = Some Xte \<and> y_test s' = Some yte
    \<and> fit K m0 Xtr (Labels (map snd ytr)) = Inr m1
    \<and> display_results_p4 K m1 Xtr ytr Xte yte = Inr (results out)
    \<and> fit K m1 Xtr (Codes (fit_transform (map snd ytr))) = Inr m2
    \<and> length (fit_transform (map snd ytr)) = length ytr
    \<and> (\<forall>i < length ytr. unique (map snd ytr) ! (fit_transform (map snd ytr) ! i) = snd (ytr ! i))
    \<and> model_cache w' = Some m2
    \<and> trace w' = trace w @ evs \<and> filter is_fit evs = [FitEv RawLabels, FitEv EncodedLabels]
    \<and> importances_from out = Some e
    \<and> (explainer s = None \<longrightarrow> explain K m2 Xte (fit_transform (map snd yte)) = Inr e)
    \<and> (explainer s \<noteq> None \<longrightarrow> from_file (explainer_joblib w) = Inr e)"
proof -
  from assms obtain df target X y Xtr Xte ytr yte m0 m1 r m2 e st1 st2 st3 st4 st5 where
    1: "load_data (s, w) = (Inr (df, target), st1)" and
    4: "main_split K X y st1 = (Inr (Xtr, Xte, ytr, yte), st2)" and
    5: "load_model st2 = (Inr m0, st3)" and
    6: "model_fit K m0 Xtr (Labels (map snd ytr)) st3 = (Inr m1, st4)" and
    7: "display_results_p4 K m1 Xtr ytr Xte yte = Inr r" and
    8: "model_fit K m1 Xtr (Codes (fit_transform (map snd ytr))) st4 = (Inr m2, st5)" and
    9: "main_explainer K m2 Xte (fit_transform (map snd yte)) st5 = (Inr e, (s', w'))" and
    out: "out = \<lparr>shown_train = length (rows Xtr), shown_test = length (rows Xte), results = r,
            importances_from = Some e\<rparr>"
    by (rule main_p4_InrE)
  obtain s1 w1 where st1: "st1 = (s1, w1)" by (cases st1)
  obtain s2 w2 where st2: "st2 = (s2, w2)" by (cases st2)
  obtain s3 w3 where st3: "st3 = (s3, w3)" by (cases st3)
  obtain s4 w4 where st4: "st4 = (s4, w4)" by (cases st4)
  obtain s5 w5 where st5: "st5 = (s5, w5)" by (cases st5)
  note e1 = load_data_effect [OF 1 [unfolded st1]]
  note e4 = main_split_effect [OF 4 [unfolded st1 st2]]
  note e5 = load_model_effect [OF 5 [unfolded st2 st3]]
  note e6 = model_fit_effect [OF 6 [unfolded st3 st4]]
  note e8 = model_fit_effect [OF 8 [unfolded st4 st5]]
  note e9 = main_explainer_effect [OF 9 [unfolded st5]]
  from e1(5) obtain ev1 where t1: "trace w1 = trace w @ ev1" "filter is_fit ev1 = []" by blast
  from e4(5) obtain ev4 where t4: "trace w2 = trace w1 @ ev4" "filter is_fit ev4 = []" by blast
  from e5(4) obtain ev5 where t5: "trace w3 = trace w2 @ ev5" "filter is_fit ev5 = []" by blast
  from e9(4) obtain ev9 where t9: "trace w' = trace w5 @ ev9" "filter is_fit ev9 = []" by blast
  let ?evs = "ev1 @ ev4 @ ev5 @ [FitEv RawLabels] @ [FitEv EncodedLabels] @ ev9"
  have tr: "trace w' = trace w @ ?evs"
    using t1(1) t4(1) t5(1) t9(1) e6(5) e8(5) by simp
  have fits: "filter is_fit ?evs = [FitEv RawLabels, FitEv EncodedLabels]"
    using t1(2) t4(2) t5(2) t9(2) by simp
  have m0: "model_cache w = Some m0 \<or> (model_cache w = None \<and> pkl w = Some m0)"
    using e5(2) e4(2,3) e1(2,3) by simp
  have sess: "X_train s' = Some Xtr \<and> y_train s' = Some ytr \<and> X_test s' = Some Xte \<and> y_test s' = Some yte"
    using e4(6-9) e5(1) e6(1) e8(1) e9(5-8) by simp
  have ex: "explainer s5 = explainer s"
    using e1(1) e4(1) e5(1) e6(1) e8(1) by simp
  have fl: "explainer_joblib w5 = explainer_joblib w"
    using e1(4) e4(4) e5(3) e6(4) e8(4) by simp
  have built: "explainer s = None \<longrightarrow> explain K m2 Xte (fit_transform (map snd yte)) = Inr e"
    using e9(2) ex by simp
  have loaded: "explainer s \<noteq> None \<longrightarrow> from_file (explainer_joblib w) = Inr e"
    using e9(3) ex fl by simp
  have codes: "length (fit_transform (map snd ytr)) = length ytr
    \<and> (\<forall>i < length ytr. unique (map snd ytr) ! (fit_transform (map snd ytr) ! i) = snd (ytr ! i))"
    using fit_transform_decodes(1) [of "map snd ytr"] fit_transform_decodes(3) [of _ "map snd ytr"]
    by simp
  have mc: "model_cache w' = Some m2"
    using e9(1) e8(3) by simp
  have res: "display_results_p4 K m1 Xtr ytr Xte yte = Inr (results out)"
    and imp: "importances_from out = Some e"
    using 7 by (simp_all add: out)
  show ?thesis
    apply (rule exI [of _ Xtr], rule exI [of _ Xte], rule exI [of _ ytr], rule exI [of _ yte])
    apply (rule exI [of _ m0], rule exI [of _ m1], rule exI [of _ m2], rule exI [of _ ?evs])
    apply (rule exI [of _ e])
    using m0 sess e6(2) res e8(2) codes mc tr fits imp built loaded apply blast
    done
qed

text \<open>
  C10, witness: the first and the second run of a session of the sample process. The sample
  model counts its fits: in the first run the report comes from state 1 and the explainer is
  built from state 2; the second run fits to states 3 and 4 and shows the explainer loaded
  from the file.
\<close>

theorem fitted_twice_witness:
  "main_p4 sample_caps (fresh_session, sample_world) =
     (Inr \<lparr>shown_train = 4, shown_test = 1,
           results = \<lparr>accuracy_train = Some (1 / 2), accuracy_test = 1,
                      samples_train = Some 4, samples_test = Some 1, cm = [[1]],
                      heatmap_z = [[1]],
                      heatmap_x = [''High Risk'', ''Low Risk'', ''Medium Risk''],
                      heatmap_y = [''Medium Risk'', ''Low Risk'', ''High Risk'']\<rparr>,
           importances_from = Some 2\<rparr>,
      (fst after_first_run, snd after_first_run))
   \<and> explainer fresh_session = None
   \<and> fit sample_caps 0 (fst sample_split) (Labels (map snd (fst (snd (snd sample_split))))) = Inr 1
   \<and> fit sample_caps 1 (fst sample_split) (Codes (fit_transform (map snd (fst (snd (snd sample_split)))))) = Inr 2
   \<and> fit_transform (map snd (fst (snd (snd sample_split)))) = [1, 1, 2, 0]
   \<and> explain sample_caps 2 (fst (snd sample_split)) (fit_transform (map snd (snd (snd (snd sample_split))))) = Inr 2
   \<and> main_p4 sample_caps (fst after_first_run, snd after_first_run) =
     (Inr \<lparr>shown_train = 4, shown_test = 1,
           results = \<lparr>accuracy_train = Some (1 / 2), accuracy_test = 1,
                      samples_train = Some 4, samples_test = Some 1, cm = [[1]],
                      heatmap_z = [[1]],
                      heatmap_x = [''High Risk'', ''Low Risk'', ''Medium Risk''],
                      heatmap_y = [''Medium Risk'', ''Low Risk'', ''High Risk'']\<rparr>,
           importances_from = Some 2\<rparr>,
      (fst after_second_run, snd after_second_run))
   \<and> explainer (fst after_first_run) = Some 2
   \<and> from_file (explainer_joblib (snd after_first_run)) = Inr 2
   \<and> model_cache (snd after_first_run) = Some 2
   \<and> model_cache (snd after_second_run) = Some 4"
proof -
  have run1: "main_p4 sample_caps (fresh_session, sample_world) =
     (Inr \<lparr>shown_train = 4, shown_test = 1,
           results = \<lparr>accuracy_train = Some (1 / 2), accuracy_test = 1,
                      samples_train = Some 4, samples_test = Some 1, cm = [[1]],
                      heatmap_z = [[1]],
                      heatmap_x = [''High Risk'', ''Low Risk'', ''Medium Risk''],
                      heatmap_y = [''Medium Risk'', ''Low Risk'', ''High Risk'']\<rparr>,
           importances_from = Some 2\<rparr>,
      (fst after_first_run, snd after_first_run))"
    by (simp add: after_first_run_def page_defs sample_defs)
  have run2: "main_p4 sample_caps (fst after_first_run, snd after_first_run) =
     (Inr \<lparr>shown_train = 4, shown_test = 1,
           results = \<lparr>accuracy_train = Some (1 / 2), accuracy_test = 1,
                      samples_train = Some 4, samples_test = Some 1, cm = [[1]],
                      heatmap_z = [[1]],
                      heatmap_x = [''High Risk'', ''Low Risk'', ''Medium Risk''],
                      heatmap_y = [''Medium Risk'', ''Low Risk'', ''High Risk'']\<rparr>,
           importances_from = Some 2\<rparr>,
      (fst after_second_run, snd after_second_run))"
    by (simp add: after_second_run_def after_first_run_def page_defs sample_defs)
  have rest: "explainer fresh_session = None
   \<and> fit sample_caps 0 (fst sample_split) (Labels (map snd (fst (snd (snd sample_split))))) = Inr 1
   \<and> fit sample_caps 1 (fst sample_split) (Codes (fit_transform (map snd (fst (snd (snd sample_split)))))) = Inr 2
   \<and> fit_transform (map snd (fst (snd (snd sample_split)))) = [1, 1, 2, 0]
   \<and> explain sample_caps 2 (fst (snd sample_split)) (fit_transform (map snd (snd (snd (snd sample_split))))) = Inr 2"
    by (simp add: sample_defs sample_split_def fit_transform_def unique_def)
  have st: "explainer (fst after_first_run) = Some 2
   \<and> from_file (explainer_joblib (snd after_first_run)) = Inr 2
   \<and> model_cache (snd after_first_run) = Some 2
   \<and> model_cache (snd after_second_run) = Some 4"
    by (simp add: after_second_run_def after_first_run_def page_defs sample_defs)
  from fitted_twice [OF run1] fitted_twice [OF run2] run1 run2 rest st show ?thesis by blast
qed

text \<open>
  C10, counterexample to "on every pipeline run" and to "the artifact is computed from this
  second fitted state". Without a model file the run ends in an exception before any fit.
  And in the second run of a session the explainer shown is the one loaded from the file,
  built in the first run from state 2, while this run leaves the model in state 4.
\<close>

theorem fits_counterexample:
  "fst (main_p4 sample_caps (fresh_session, no_model_world)) = Inl FileNotFoundError
   \<and> filter is_fit (trace (snd (snd (main_p4 sample_caps (fresh_session, no_model_world))))) = []
   \<and> map (map_sum id importances_from) (fst (page_runs sample_caps 2 (fresh_session, sample_world)))
        = [Inr (Some 2), Inr (Some 2)]
   \<and> model_cache (snd (snd (page_runs sample_caps 2 (fresh_session, sample_world)))) = Some 4"
  by (simp add: page_runs_def no_model_world_def page_defs sample_defs eval_nat_numeral)

text \<open>
  Two runs of page 4 in one session of the sample process: one read of the file, one split,
  one unpickling, four fits, one constructor call and one dump, then one load of the
  explainer file.
\<close>

lemma sample_two_runs:
  "trace (snd (snd (run_all [main_p4 sample_caps, main_p4 sample_caps] (fresh_session, sample_world)))) =
     [ReadCsv, SplitEv, LoadPkl, FitEv RawLabels, FitEv EncodedLabels, ExplainEv, DumpEv,
      FitEv RawLabels, FitEv EncodedLabels, FromFileEv]"
  by (simp add: page_defs sample_defs)

section \<open>A first run of page 4, end to end\<close>

text \<open>A first run of page 4 in a fresh session, every step of which returns.\<close>

lemma main_p4_fresh_run:
  assumes dc: "data_cache w = None" and csv: "csv w = Table cols cells"
    and X: "drop_column \<lparr>columns = cols, rows = zip [0..<length cells] cells\<rparr> ''RiskLevel'' = Inr X"
    and y: "get_column \<lparr>columns = cols, rows = zip [0..<length cells] cells\<rparr> ''RiskLevel'' = Inr y"
    and xs: "X_train s = None"
    and sp: "train_test_split (rng_permutation K) (entropy w) X y (1 / 5) (Some 7) = Inr (Xtr, Xte, ytr, yte)"
    and m0: "model_cache w = Some m0 \<or> (model_cache w = None \<and> pkl w = Some m0)"
    and f1: "fit K m0 Xtr (Labels (map snd ytr)) = Inr m1"
    and r: "display_results_p4 K m1 Xtr ytr Xte yte = Inr r"
    and f2: "fit K m1 Xtr (Codes (fit_transform (map snd ytr))) = Inr m2"
    and ex: "explainer s = None" and wr: "writable w"
    and built: "explain K m2 Xte (fit_transform (map snd yte)) = Inr a"
  shows "fst (main_p4 K (s, w)) =
           Inr \<lparr>shown_train = length (rows Xtr), shown_test = length (rows Xte), results = r,
                importances_from = Some a\<rparr>"
    and "fst (snd (main_p4 K (s, w))) =
           s\<lparr>X_train := Some Xtr, y_train := Some ytr, X_test := Some Xte, y_test := Some yte,
             explainer := Some a\<rparr>"
proof -
  from m0 show "fst (main_p4 K (s, w)) =
           Inr \<lparr>shown_train = length (rows Xtr), shown_test = length (rows Xte), results = r,
                importances_from = Some a\<rparr>"
  proof
    assume "model_cache w = Some m0"
    then show ?thesis
      using dc csv xs ex wr
      by (simp add: main_p4_def and_then_def lift_def ret_def load_data_def X y main_split_def sp
          load_model_def model_fit_def f1 r f2 main_explainer_def built dump_def Let_def)
  next
    assume "model_cache w = None \<and> pkl w = Some m0"
    then show ?thesis
      using dc csv xs ex wr
      by (simp add: main_p4_def and_then_def lift_def ret_def load_data_def X y main_split_def sp
          load_model_def model_fit_def f1 r f2 main_explainer_def built dump_def Let_def)
  qed
  from m0 show "fst (snd (main_p4 K (s, w))) =
           s\<lparr>X_train := Some Xtr, y_train := Some ytr, X_test := Some Xte, y_test := Some yte,
             explainer := Some a\<rparr>"
  proof
    assume "model_cache w = Some m0"
    then show ?thesis
      using dc csv xs ex wr
      by (simp add: main_p4_def and_then_def lift_def ret_def load_data_def X y main_split_def sp
          load_model_def model_fit_def f1 r f2 main_explainer_def built dump_def Let_def)
  next
    assume "model_cache w = None \<and> pkl w = Some m0"
    then show ?thesis
      using dc csv xs ex wr
      by (simp add: main_p4_def and_then_def lift_def ret_def load_data_def X y main_split_def sp
          load_model_def model_fit_def f1 r f2 main_explainer_def built dump_def Let_def)
  qed
qed

lemma display_results_p4_returns:
  assumes "length (predict K m Xte) = length yte" and "length (predict K m Xtr) = length ytr"
    and "yte \<noteq> []" and "ytr \<noteq> []"
  shows "\<exists>r. display_results_p4 K m Xtr ytr Xte yte = Inr r"
  using assms by (simp add: display_results_p4_def accuracy_score_def confusion_matrix_def Let_def)

lemma drop_column_returns:
  assumes "c \<in> set (columns df)"
  shows "\<exists>X. drop_column df c = Inr X \<and> length (rows X) = length (rows df) \<and> map fst (rows X) = map fst (rows df)"
  using assms by (auto simp: drop_column_def case_prod_unfold)

lemma get_column_returns:
  assumes "c \<in> set (columns df)"
  shows "get_column df c = Inr (map (\<lambda>(i, cells). (i, cells ! index_of (columns df) c)) (rows df))"
  using assms by (simp add: get_column_def)


lemma fresh_run_exists:
  assumes dc: "data_cache w = None" and csv: "csv w = Table cols cells"
    and tgt: "''RiskLevel'' \<in> set cols" and n2: "2 \<le> length cells"
    and xs: "X_train s = None" and ex: "explainer s = None" and wr: "writable w"
    and mdl: "model_cache w \<noteq> None \<or> pkl w \<noteq> None"
    and fits: "\<forall>m X y. \<exists>m'. fit K m X y = Inr m'"
    and preds: "\<forall>m X. length (predict K m X) = length (rows X)"
    and expl: "\<forall>m X y. \<exists>a. explain K m X y = Inr a"
    and perm: "mset (rng_permutation K 7 (length cells)) = mset [0..<length cells]"
  obtains Xtr Xte ytr yte m0 m1 m2 r a where
    "fst (main_p4 K (s, w)) =
       Inr \<lparr>shown_train = length (rows Xtr), shown_test = length (rows Xte), results = r,
            importances_from = Some a\<rparr>"
    "fst (snd (main_p4 K (s, w))) =
       s\<lparr>X_train := Some Xtr, y_train := Some ytr, X_test := Some Xte, y_test := Some yte,
         explainer := Some a\<rparr>"
    "model_cache w = Some m0 \<or> (model_cache w = None \<and> pkl w = Some m0)"
    "fit K m0 Xtr (Labels (map snd ytr)) = Inr m1"
    "display_results_p4 K m1 Xtr ytr Xte yte = Inr r"
    "length (rows Xtr) = length cells - (length cells + 4) div 5"
    "length (rows Xte) = (length cells + 4) div 5"
    "length ytr = length cells - (length cells + 4) div 5"
    "length yte = (length cells + 4) div 5"
    "yte = map (\<lambda>i. map (\<lambda>(i, cs). (i, cs ! index_of cols ''RiskLevel'')) (zip [0..<length cells] cells) ! i)
               (take ((length cells + 4) div 5) (rng_permutation K 7 (length cells)))"
proof -
  let ?n = "length cells"
  let ?nt = "(?n + 4) div 5"
  let ?df = "\<lparr>columns = cols, rows = zip [0..<?n] cells\<rparr>"
  let ?y = "map (\<lambda>(i, cs). (i, cs ! index_of cols ''RiskLevel'')) (zip [0..<?n] cells)"
  let ?p = "rng_permutation K 7 ?n"
  from drop_column_returns [of "''RiskLevel''" ?df] tgt obtain X where
    X: "drop_column ?df ''RiskLevel'' = Inr X" and lX: "length (rows X) = ?n"
    by auto
  have y: "get_column ?df ''RiskLevel'' = Inr ?y"
    using get_column_returns [of "''RiskLevel''" ?df] tgt by simp
  have ly: "length ?y = length (rows X)" by (simp add: lX)
  have v: "validate_shuffle_split (length (rows X)) (1 / 5) = Inr (?n - ?nt, ?nt)"
    using n2 by (simp add: validate_fifth lX)
  have perm': "mset (rng_permutation K 7 (length (rows X))) = mset [0..<length (rows X)]"
    using perm by (simp add: lX)
  define Xtr where "Xtr = \<lparr>columns = columns X, rows = map (\<lambda>i. rows X ! i) (drop ?nt ?p)\<rparr>"
  define Xte where "Xte = \<lparr>columns = columns X, rows = map (\<lambda>i. rows X ! i) (take ?nt ?p)\<rparr>"
  define ytr where "ytr = map (\<lambda>i. ?y ! i) (drop ?nt ?p)"
  define yte where "yte = map (\<lambda>i. ?y ! i) (take ?nt ?p)"
  have sp: "train_test_split (rng_permutation K) (entropy w) X ?y (1 / 5) (Some 7) = Inr (Xtr, Xte, ytr, yte)"
    using train_test_split_perm(1) [where perm = "rng_permutation K" and seed = 7, OF perm' ly v, of "entropy w"]
    by (simp add: lX Xtr_def Xte_def ytr_def yte_def)
  have lp: "length ?p = ?n" using perm_facts(1) [OF perm] .
  have nt: "?nt \<le> ?n" using n2 by linarith
  have lens: "length (rows Xtr) = ?n - ?nt" "length (rows Xte) = ?nt" "length ytr = ?n - ?nt" "length yte = ?nt"
    using lp nt by (simp_all add: Xtr_def Xte_def ytr_def yte_def)
  from mdl obtain m0 where m0: "model_cache w = Some m0 \<or> (model_cache w = None \<and> pkl w = Some m0)"
    by (cases "model_cache w") auto
  from fits obtain m1 where f1: "fit K m0 Xtr (Labels (map snd ytr)) = Inr m1" by blast
  have pos: "yte \<noteq> []" "ytr \<noteq> []"
    using lens n2 by (auto simp flip: length_0_conv)
  from display_results_p4_returns [of K m1 Xte yte Xtr ytr] preds lens pos obtain r where
    r: "display_results_p4 K m1 Xtr ytr Xte yte = Inr r"
    by auto
  from fits obtain m2 where f2: "fit K m1 Xtr (Codes (fit_transform (map snd ytr))) = Inr m2" by blast
  from expl obtain a where built: "explain K m2 Xte (fit_transform (map snd yte)) = Inr a" by blast
  note run = main_p4_fresh_run [OF dc csv X y xs sp m0 f1 r f2 ex wr built]
  show thesis
    by (rule that [OF run(1) run(2) m0 f1 r lens]) (simp add: yte_def)
qed

lemma cm_single_class:
  assumes "0 < n"
  shows "confusion_matrix (replicate n a) (replicate n a) = Inr [[n]]"
proof -
  have "unique (replicate n a @ replicate n a) = [a]"
  proof (rule sorted_distinct_set_unique)
    show "sorted (unique (replicate n a @ replicate n a))" "distinct (unique (replicate n a @ replicate n a))"
      by (simp_all add: unique_facts)
    show "set (unique (replicate n a @ replicate n a)) = set [a]"
      using assms by (auto simp: unique_facts)
  qed simp_all
  moreover have "cell_count (replicate n a) (replicate n a) a a = n"
    by (simp add: cell_count_def zip_replicate)
  ultimately show ?thesis
    using assms by (simp add: confusion_matrix_def unique_labels_def Let_def)
qed

text \<open>
  A first run of page 4 on a table of 1014 rows that has the target column (fresh session,
  writable explainer file, a model to load, capabilities that do not raise, one prediction
  per row, a generator that returns a permutation of the positions) reaches its end: it
  trains on 811 rows and validates on 203, the report comes from the model fitted on the
  training rows, both accuracies lie between 0 and 1, and the confusion matrix is a square
  matrix of natural numbers whose cells add up to 203, with one row and column per distinct
  label among the validation labels and the predictions.
\<close>

lemma first_run_1014:
  assumes dc: "data_cache w = None" and csv: "csv w = Table cols cells"
    and tgt: "''RiskLevel'' \<in> set cols" and n: "length cells = 1014"
    and xs: "X_train s = None" and ex: "explainer s = None" and wr: "writable w"
    and mdl: "model_cache w \<noteq> None \<or> pkl w \<noteq> None"
    and fits: "\<forall>m X y. \<exists>m'. fit K m X y = Inr m'"
    and preds: "\<forall>m X. length (predict K m X) = length (rows X)"
    and expl: "\<forall>m X y. \<exists>a. explain K m X y = Inr a"
    and perm: "mset (rng_permutation K 7 1014) = mset [0..<1014]"
  shows "\<exists>out st' Xtr Xte ytr yte m0 m1. main_p4 K (s, w) = (Inr out, st')
      \<and> (model_cache w = Some m0 \<or> (model_cache w = None \<and> pkl w = Some m0))
      \<and> X_train (fst st') = Some Xtr \<and> y_train (fst st') = Some ytr
      \<and> fit K m0 Xtr (Labels (map snd ytr)) = Inr m1
      \<and> display_results_p4 K m1 Xtr ytr Xte yte = Inr (results out)
      \<and> shown_train out = 811 \<and> shown_test out = 203
      \<and> samples_train (results out) = Some 811 \<and> samples_test (results out) = Some 203
      \<and> 0 \<le> accuracy_test (results out) \<and> accuracy_test (results out) \<le> 1
      \<and> (\<exists>a. accuracy_train (results out) = Some a \<and> 0 \<le> a \<and> a \<le> 1)
      \<and> sum_list (map sum_list (cm (results out))) = 203
      \<and> (\<forall>row \<in> set (cm (results out)). length row = length (cm (results out)))
      \<and> X_test (fst st') = Some Xte \<and> y_test (fst st') = Some yte \<and> length yte = 203
      \<and> length (cm (results out)) = card (set (map snd yte) \<union> set (predict K m1 Xte))"
proof -
  have n2: "2 \<le> length cells"
    by (simp add: n)
  have perm': "mset (rng_permutation K 7 (length cells)) = mset [0..<length cells]"
    unfolding n by (rule perm)
  obtain Xtr Xte ytr yte m0 m1 m2 r a where
    out: "fst (main_p4 K (s, w)) =
       Inr \<lparr>shown_train = length (rows Xtr), shown_test = length (rows Xte), results = r,
            importances_from = Some a\<rparr>" and
    sess: "fst (snd (main_p4 K (s, w))) =
       s\<lparr>X_train := Some Xtr, y_train := Some ytr, X_test := Some Xte, y_test := Some yte,
         explainer := Some a\<rparr>" and
    m0: "model_cache w = Some m0 \<or> (model_cache w = None \<and> pkl w = Some m0)" and
    f1: "fit K m0 Xtr (Labels (map snd ytr)) = Inr m1" and
    r: "display_results_p4 K m1 Xtr ytr Xte yte = Inr r" and
    lens: "length (rows Xtr) = length cells - (length cells + 4) div 5"
      "length (rows Xte) = (length cells + 4) div 5"
      "length ytr = length cells - (length cells + 4) div 5"
      "length yte = (length cells + 4) div 5"
    by (rule fresh_run_exists [OF dc csv tgt n2 xs ex wr mdl fits preds expl perm'])
  have l: "length (rows Xtr) = 811" "length (rows Xte) = 203" "length ytr = 811" "length yte = 203"
    using lens by (simp_all add: n)
  note d = display_results_p4_Inr [OF r]
  note shape = cm_shape [OF d(1), unfolded length_map]
  from shape have s5: "sum_list (map sum_list (cm r)) = length yte" by blast
  from shape have s6: "\<forall>row \<in> set (cm r). length row = length (cm r)" by blast
  from shape have s8: "length (cm r) = card (set (map snd yte) \<union> set (predict K m1 Xte))" by blast
  note acc = accuracy_score_range [OF d(2)]
  from d(3) obtain q where q: "accuracy_score (map snd ytr) (predict K m1 Xtr) = Inr q"
    "accuracy_train r = Some q" by blast
  note acc_tr = accuracy_score_range [OF q(1)]
  let ?out = "\<lparr>shown_train = length (rows Xtr), shown_test = length (rows Xte), results = r,
            importances_from = Some a\<rparr>"
  have run: "main_p4 K (s, w) = (Inr ?out, snd (main_p4 K (s, w)))"
    using out by (metis prod.collapse)
  have 1: "shown_train ?out = 811 \<and> shown_test ?out = 203" by (simp add: l)
  have 2: "samples_train (results ?out) = Some 811 \<and> samples_test (results ?out) = Some 203"
    using d(4,5) by (simp add: l)
  have 3: "0 \<le> accuracy_test (results ?out) \<and> accuracy_test (results ?out) \<le> 1"
    using acc by simp
  have 4: "\<exists>a. accuracy_train (results ?out) = Some a \<and> 0 \<le> a \<and> a \<le> 1"
    using q(2) acc_tr by simp
  have 5: "sum_list (map sum_list (cm (results ?out))) = 203"
    using s5 l(4) by simp
  have 6: "\<forall>row \<in> set (cm (results ?out)). length row = length (cm (results ?out))"
    using s6 by simp
  have 7: "X_test (fst (snd (main_p4 K (s, w)))) = Some Xte \<and> y_test (fst (snd (main_p4 K (s, w)))) = Some yte \<and> length yte = 203"
    by (simp add: sess l)
  have 8: "length (cm (results ?out)) = card (set (map snd yte) \<union> set (predict K m1 Xte))"
    using s8 by simp
  have 9: "X_train (fst (snd (main_p4 K (s, w)))) = Some Xtr \<and> y_train (fst (snd (main_p4 K (s, w)))) = Some ytr"
    by (simp add: sess)
  have 10: "display_results_p4 K m1 Xtr ytr Xte yte = Inr (results ?out)"
    using r by simp
  show ?thesis
    apply (rule exI [of _ ?out])
    apply (rule exI [of _ "snd (main_p4 K (s, w))"])
    apply (rule exI [of _ Xtr])
    apply (rule exI [of _ Xte])
    apply (rule exI [of _ ytr])
    apply (rule exI [of _ yte])
    apply (rule exI [of _ m0])
    apply (rule exI [of _ m1])
    using run m0 9 f1 10 1 2 3 4 5 6 7 8 apply blast
    done
qed

lemma big_cells_facts:
  "length big_cells = 1014"
  "set (map last big_cells) = {''high risk'', ''mid risk'', ''low risk''}"
  "\<And>i. 2 \<le> i \<Longrightarrow> i < 1014 \<Longrightarrow> big_cells ! i = [''22'', ''low risk'']"
  by (auto simp: big_cells_def nth_append nth_Cons split: nat.splits)

lemma sample_hyps:
  "\<forall>m X y. \<exists>m'. fit sample_caps m X y = Inr m'"
  "\<forall>m X. length (predict sample_caps m X) = length (rows X)"
  "mset (rng_permutation sample_caps 7 n) = mset [0..<n]"
  "rng_permutation sample_caps 7 n = rev [0..<n]"
  "predict sample_caps m X = replicate (length (rows X)) ''low risk''"
  "\<forall>m X y. \<exists>a. explain sample_caps m X y = Inr a"
  by (simp_all add: sample_caps_def)

lemma big_world_facts:
  "data_cache big_world = None" "csv big_world = Table [''Age'', ''RiskLevel''] big_cells"
  "writable big_world" "model_cache big_world \<noteq> None \<or> pkl big_world \<noteq> None"
  "X_train fresh_session = None" "explainer fresh_session = None"
  by (simp_all add: big_world_def sample_world_def fresh_session_def)

text \<open>
  C7, the code at an input where it misses the three by three matrix. The 1014-row table has
  three classes; its validation rows (the last 203 under the reversing generator) are all
  low risk and so are the predictions. The run trains on 811 rows and validates on 203, and
  the matrix it hands to the heat map is the single cell 203, under the three axis names
  that \<^verbatim>\<open>display_results\<close> writes out for a three by three matrix.
\<close>

theorem single_class_matrix_at_1014:
  "length big_cells = 1014
   \<and> set (map last big_cells) = {''high risk'', ''mid risk'', ''low risk''}
   \<and> map_sum id shown_train (fst (main_p4 sample_caps (fresh_session, big_world))) = Inr 811
   \<and> map_sum id shown_test (fst (main_p4 sample_caps (fresh_session, big_world))) = Inr 203
   \<and> map_sum id (cm \<circ> results) (fst (main_p4 sample_caps (fresh_session, big_world))) = Inr [[203]]
   \<and> map_sum id (heatmap_x \<circ> results) (fst (main_p4 sample_caps (fresh_session, big_world)))
        = Inr [''High Risk'', ''Low Risk'', ''Medium Risk'']"
proof -
  have t: "''RiskLevel'' \<in> set [''Age'', ''RiskLevel'']" by simp
  have n2: "2 \<le> length big_cells" by (simp add: big_cells_facts(1))
  obtain Xtr Xte ytr yte m0 m1 m2 r a where
    out: "fst (main_p4 sample_caps (fresh_session, big_world)) =
       Inr \<lparr>shown_train = length (rows Xtr), shown_test = length (rows Xte), results = r,
            importances_from = Some a\<rparr>" and
    sess: "fst (snd (main_p4 sample_caps (fresh_session, big_world))) =
       fresh_session\<lparr>X_train := Some Xtr, y_train := Some ytr, X_test := Some Xte, y_test := Some yte,
         explainer := Some a\<rparr>" and
    m0: "model_cache big_world = Some m0 \<or> (model_cache big_world = None \<and> pkl big_world = Some m0)" and
    f1: "fit sample_caps m0 Xtr (Labels (map snd ytr)) = Inr m1" and
    r: "display_results_p4 sample_caps m1 Xtr ytr Xte yte = Inr r" and
    ltr: "length (rows Xtr) = length big_cells - (length big_cells + 4) div 5" and
    lte: "length (rows Xte) = (length big_cells + 4) div 5" and
    lytr: "length ytr = length big_cells - (length big_cells + 4) div 5" and
    lyte: "length yte = (length big_cells + 4) div 5" and
    yte: "yte = map (\<lambda>i. map (\<lambda>(i, cs). (i, cs ! index_of [''Age'', ''RiskLevel''] ''RiskLevel''))
                       (zip [0..<length big_cells] big_cells) ! i)
               (take ((length big_cells + 4) div 5) (rng_permutation sample_caps 7 (length big_cells)))"
    by (rule fresh_run_exists [OF big_world_facts(1,2) t n2 big_world_facts(5,6,3,4) sample_hyps(1,2,6,3)])
  have idx: "take 203 (rev [0..<1014]) = rev [811..<1014]"
    by (simp add: take_rev del: upt_rec_numeral)
  have label: "snd (map (\<lambda>(i, cs). (i, cs ! index_of [''Age'', ''RiskLevel''] ''RiskLevel''))
                     (zip [0..<1014] big_cells) ! i) = ''low risk''"
    if "i \<in> set (rev [811..<1014])" for i
  proof -
    from that have i: "2 \<le> i" "i < 1014" by (auto simp del: upt_rec_numeral)
    then show ?thesis
      by (simp add: big_cells_facts(1) big_cells_facts(3) [OF i] del: upt_rec_numeral)
  qed
  have "map snd yte = map (\<lambda>i. snd (map (\<lambda>(i, cs). (i, cs ! index_of [''Age'', ''RiskLevel''] ''RiskLevel''))
                     (zip [0..<1014] big_cells) ! i)) (rev [811..<1014])"
    unfolding yte big_cells_facts(1) sample_hyps(4)
    by (simp add: idx comp_def del: upt_rec_numeral)
  also have "\<dots> = map (\<lambda>i. ''low risk'') (rev [811..<1014])"
    by (rule map_cong [OF refl]) (rule label)
  finally have ys: "map snd yte = replicate 203 ''low risk''"
    by (simp add: map_replicate_const del: upt_rec_numeral)
  have ps: "predict sample_caps m1 Xte = replicate 203 ''low risk''"
    by (simp add: sample_hyps(5) lte big_cells_facts(1))
  have "confusion_matrix (map snd yte) (predict sample_caps m1 Xte) = Inr [[203]]"
    unfolding ys ps by (rule cm_single_class) simp
  with display_results_p4_Inr(1) [OF r] have "cm r = [[203]]" by simp
  then have c: "map_sum id (cm \<circ> results) (fst (main_p4 sample_caps (fresh_session, big_world))) = Inr [[203]]"
    by (simp add: out)
  have tr: "map_sum id shown_train (fst (main_p4 sample_caps (fresh_session, big_world))) = Inr 811"
    by (simp add: out ltr big_cells_facts(1))
  have te: "map_sum id shown_test (fst (main_p4 sample_caps (fresh_session, big_world))) = Inr 203"
    by (simp add: out lte big_cells_facts(1))
  have hx: "map_sum id (heatmap_x \<circ> results) (fst (main_p4 sample_caps (fresh_session, big_world)))
        = Inr [''High Risk'', ''Low Risk'', ''Medium Risk'']"
    by (simp add: out display_results_p4_Inr(7) [OF r])
  from big_cells_facts(1,2) tr te c hx show ?thesis by (intro conjI)
qed

section \<open>Loading the data\<close>

text \<open>
  C9, as the code has it. With nothing cached, \<^verbatim>\<open>load_data\<close> raises exactly when the
  file is missing, of zero bytes or cannot be parsed; any parsed table is returned together with the fixed
  name \<^verbatim>\<open>RiskLevel\<close>, whether or not it has that column or any row. A missing target
  column raises KeyError later, at \<^verbatim>\<open>df.drop\<close> in \<^verbatim>\<open>main\<close>; a table without rows
  raises ValueError at the split. With a cached result, that result is returned without
  looking at the file.
\<close>

theorem load_data_outcomes:
  "(data_cache w = None \<longrightarrow>
       (csv w = NoFile \<longrightarrow> fst (load_data (s, w)) = Inl FileNotFoundError)
     \<and> (csv w = EmptyFile \<longrightarrow> fst (load_data (s, w)) = Inl EmptyDataError)
     \<and> (csv w = Unparsable \<longrightarrow> fst (load_data (s, w)) = Inl ParserError)
     \<and> (\<forall>cols cells. csv w = Table cols cells \<longrightarrow>
           fst (load_data (s, w)) = Inr (\<lparr>columns = cols, rows = zip [0..<length cells] cells\<rparr>, ''RiskLevel'')
         \<and> (''RiskLevel'' \<notin> set cols \<longrightarrow> fst (main_p4 K (s, w)) = Inl (KeyError ''RiskLevel'')
                                      \<and> fst (main_p2 K (s, w)) = Inl (KeyError ''RiskLevel''))
         \<and> (''RiskLevel'' \<in> set cols \<and> cells = [] \<longrightarrow> fst (main_p2 K (s, w)) = Inl ValueError
                 \<and> (X_train s = None \<longrightarrow> fst (main_p4 K (s, w)) = Inl ValueError))))
   \<and> (\<forall>r. data_cache w = Some r \<longrightarrow> fst (load_data (s, w)) = Inr r)"
  by (auto simp: load_data_def Let_def main_p4_def main_p2_def and_then_def lift_def drop_column_def
      get_column_def main_split_def main_split_p2_def train_test_split_def validate_shuffle_split_def)

text \<open>C9, witness: a table without the target column, a missing file, and a missing file
  behind a filled cache.\<close>

theorem load_data_outcomes_witness:
  "data_cache sample_world = None \<and> csv no_target_world = Table [''Age'', ''BS''] [[''25'', ''7'']]
   \<and> data_cache no_target_world = None \<and> ''RiskLevel'' \<notin> set [''Age'', ''BS'']
   \<and> fst (load_data (fresh_session, no_target_world)) =
        Inr (\<lparr>columns = [''Age'', ''BS''], rows = zip [0..<length [[''25'', ''7'']]] [[''25'', ''7'']]\<rparr>, ''RiskLevel'')
   \<and> fst (main_p4 sample_caps (fresh_session, no_target_world)) = Inl (KeyError ''RiskLevel'')
   \<and> csv (sample_world\<lparr>csv := NoFile\<rparr>) = NoFile
   \<and> fst (load_data (fresh_session, sample_world\<lparr>csv := NoFile\<rparr>)) = Inl FileNotFoundError
   \<and> data_cache (sample_world\<lparr>csv := NoFile, data_cache := Some (sample_features, ''RiskLevel'')\<rparr>)
        = Some (sample_features, ''RiskLevel'')
   \<and> fst (load_data (fresh_session, sample_world\<lparr>csv := NoFile, data_cache := Some (sample_features, ''RiskLevel'')\<rparr>))
        = Inr (sample_features, ''RiskLevel'')"
  using load_data_outcomes [of no_target_world fresh_session sample_caps]
    load_data_outcomes [of "sample_world\<lparr>csv := NoFile\<rparr>" fresh_session sample_caps]
    load_data_outcomes [of "sample_world\<lparr>csv := NoFile, data_cache := Some (sample_features, ''RiskLevel'')\<rparr>"
      fresh_session sample_caps]
  by (simp add: no_target_world_def sample_world_def)

text \<open>
  C9, counterexample to "fails on a missing target column or an empty table":
  \<^verbatim>\<open>load_data\<close> returns both tables.
\<close>

theorem load_unvalidated_counterexample:
  "fst (load_data (fresh_session, no_target_world)) =
     Inr (\<lparr>columns = [''Age'', ''BS''], rows = [(0, [''25'', ''7''])]\<rparr>, ''RiskLevel'')
   \<and> fst (load_data (fresh_session, empty_world)) =
     Inr (\<lparr>columns = [''Age'', ''RiskLevel''], rows = []\<rparr>, ''RiskLevel'')"
  by (simp add: load_data_def Let_def emit_def no_target_world_def empty_world_def sample_world_def)

end
